theory Spec2Isabelle
  imports Complex_Main "HOL-Library.Sublist"
begin

section \<open>The violation detection and risk-scoring engine of bharatHireSecure\<close>

text \<open>
  The repository holds two versions of the proctoring server: the enhanced one,
  \<^verbatim>\<open>src/bhararhire/app/server.mjs\<close> (its health endpoint reports version 3.0.0), and the
  basic one, \<^verbatim>\<open>src/unnamed/part_000\<close> (version 2.0.0). Definitions without a suffix embed
  \<^verbatim>\<open>server.mjs\<close>; a definition with the suffix \<open>_v2\<close> embeds the function of the same
  name in \<^verbatim>\<open>part_000\<close>.

  Conventions of the embedding.
  \<^item> JavaScript strings are \<open>string\<close>; the string primitives (\<open>toLowerCase\<close>,
    \<open>includes\<close>, \<open>trim\<close>, \<open>split\<close>, the regular expression of the network scanner) are
    modelled on ASCII text.
  \<^item> Counters and scores are \<open>nat\<close> or \<open>int\<close>; \<open>attentionScore\<close> and the confidence
    literals are \<open>real\<close> (only compared with, or copied from, decimal literals).
  \<^item> A parameter that may be \<open>undefined\<close> or \<open>null\<close> is a \<open>nullable\<close>.
  \<^item> A collaborator that may throw (\<open>psList\<close>, \<open>execPromise\<close>) is an input of type
    \<open>error + result\<close>, \<open>Inl\<close> being the thrown error's message.
  \<^item> Free-text fields (\<open>description\<close>, \<open>details\<close>, \<open>evidence\<close>), timestamps, the
    fields of a process that are only copied (\<open>ppid\<close>, \<open>cpu\<close>, \<open>memory\<close>,
    \<open>starttime\<close>), the floating-point confidence of process findings, of
    \<open>aiAnalysis\<close> and of the report, the list \<open>aiAnalysis.patterns\<close>, the system
    information, the log files and the session maps are left out: no branch of the
    modelled functions reads them.
\<close>

subsection \<open>JavaScript values and string primitives\<close>

datatype 'a nullable = JsUndefined | JsNull | JsObject 'a

text \<open>\<open>String.prototype.toLowerCase\<close> on ASCII text.\<close>

definition lowerChar :: "char \<Rightarrow> char" where
  "lowerChar c =
     (case map_of (zip ''ABCDEFGHIJKLMNOPQRSTUVWXYZ'' ''abcdefghijklmnopqrstuvwxyz'') c of
        Some d \<Rightarrow> d
      | None \<Rightarrow> c)"

definition toLowerCase :: "string \<Rightarrow> string" where
  "toLowerCase s = map lowerChar s"

text \<open>\<open>s.startsWith(t)\<close> and \<open>s.includes(t)\<close>: \<open>t\<close> occurs in \<open>s\<close> as a contiguous run.\<close>

fun startsWith :: "string \<Rightarrow> string \<Rightarrow> bool" where
  "startsWith s [] = True"
| "startsWith [] (d # t) = False"
| "startsWith (c # s) (d # t) = (c = d \<and> startsWith s t)"

fun includes_str :: "string \<Rightarrow> string \<Rightarrow> bool" where
  "includes_str [] t = (t = [])"
| "includes_str (c # s) t = (startsWith (c # s) t \<or> includes_str s t)"

subsection \<open>Severities and finding types\<close>

datatype severity = CLEAN | LOW | MEDIUM | HIGH | CRITICAL

datatype violationType =
    UNAUTHORIZED_APPLICATION
  | SUSPICIOUS_ACTIVITY
  | SUSPICIOUS_NETWORK_ACTIVITY
  | SUSPICIOUS_BROWSER_ACTIVITY
  | EXCESSIVE_TAB_SWITCHING
  | EXCESSIVE_RIGHT_CLICKS
  | EXTENDED_IDLE_TIME
  | UNUSUAL_KEYSTROKE_PATTERN
  | FACE_NOT_DETECTED
  | LOW_ATTENTION_SCORE
  | CRITICAL_ATTENTION_SCORE

text \<open>The order of the specification, \<open>CLEAN < LOW < MEDIUM < HIGH < CRITICAL\<close>, and the
  maximum of a list of severities under it (\<open>CLEAN\<close> for the empty list).\<close>

fun severityRank :: "severity \<Rightarrow> nat" where
  "severityRank CLEAN = 0"
| "severityRank LOW = 1"
| "severityRank MEDIUM = 2"
| "severityRank HIGH = 3"
| "severityRank CRITICAL = 4"

definition severityMax :: "severity \<Rightarrow> severity \<Rightarrow> severity" where
  "severityMax a b = (if severityRank a < severityRank b then b else a)"

definition maxSeverity :: "severity list \<Rightarrow> severity" where
  "maxSeverity ss = foldl severityMax CLEAN ss"

subsection \<open>Behavioral and biometric risk analyzers (\<^verbatim>\<open>server.mjs\<close>)\<close>

record anomaly =
  an_type :: violationType
  an_severity :: severity
  an_confidence :: real

record analysis =
  riskScore :: int
  anomalies :: "anomaly list"

record behaviorAnalysis = analysis +
  patterns :: "string list"
  recommendations :: "string list"

datatype attentionLevel = NORMAL | LOW_ATTENTION | CRITICAL_ATTENTION

record biometricAnalysis = analysis +
  attentionLevel :: attentionLevel

record behaviorMetrics =
  tabSwitches :: int
  rightClicks :: int
  idleTime :: int
  keystrokes :: int

record biometricData =
  faceDetected :: bool
  attentionScore :: real

text \<open>The four rules of \<open>analyzeBehaviorMetrics\<close>, each the update of \<open>analysis\<close> that
  its \<open>if\<close> statement performs, in the order of the source.\<close>

definition tabSwitchRule :: "behaviorMetrics \<Rightarrow> behaviorAnalysis \<Rightarrow> behaviorAnalysis" where
  "tabSwitchRule b a =
     (if tabSwitches b > 5
      then a\<lparr>riskScore := riskScore a + tabSwitches b * 2,
             anomalies := anomalies a @
               [\<lparr>an_type = EXCESSIVE_TAB_SWITCHING,
                 an_severity = (if tabSwitches b > 10 then HIGH else MEDIUM),
                 an_confidence = 0.9\<rparr>]\<rparr>
      else a)"

definition rightClickRule :: "behaviorMetrics \<Rightarrow> behaviorAnalysis \<Rightarrow> behaviorAnalysis" where
  "rightClickRule b a =
     (if rightClicks b > 3
      then a\<lparr>riskScore := riskScore a + rightClicks b * 3,
             anomalies := anomalies a @
               [\<lparr>an_type = EXCESSIVE_RIGHT_CLICKS, an_severity = MEDIUM, an_confidence = 0.8\<rparr>]\<rparr>
      else a)"

definition idleTimeRule :: "behaviorMetrics \<Rightarrow> behaviorAnalysis \<Rightarrow> behaviorAnalysis" where
  "idleTimeRule b a =
     (if idleTime b > 60000
      then a\<lparr>riskScore := riskScore a + 10,
             anomalies := anomalies a @
               [\<lparr>an_type = EXTENDED_IDLE_TIME, an_severity = MEDIUM, an_confidence = 0.7\<rparr>]\<rparr>
      else a)"

definition keystrokeRule :: "behaviorMetrics \<Rightarrow> behaviorAnalysis \<Rightarrow> behaviorAnalysis" where
  "keystrokeRule b a =
     (let keystrokeRate = real_of_int (keystrokes b) / 5
      in if keystrokeRate > 100
         then a\<lparr>riskScore := riskScore a + 15,
                anomalies := anomalies a @
                  [\<lparr>an_type = UNUSUAL_KEYSTROKE_PATTERN, an_severity = HIGH,
                    an_confidence = 0.85\<rparr>]\<rparr>
         else a)"

definition behaviorRecommendations :: "behaviorMetrics \<Rightarrow> behaviorAnalysis \<Rightarrow> behaviorAnalysis" where
  "behaviorRecommendations b a =
     (let a1 = (if riskScore a > 50
                then a\<lparr>recommendations := recommendations a @
                       [''Increase monitoring frequency'', ''Request additional verification'']\<rparr>
                else a)
      in if tabSwitches b > 3
         then a1\<lparr>recommendations := recommendations a1 @
                  [''Warn candidate about tab switching'']\<rparr>
         else a1)"

definition analyzeBehaviorMetrics ::
  "behaviorMetrics nullable \<Rightarrow> string option \<Rightarrow> behaviorAnalysis" where
  "analyzeBehaviorMetrics behaviorData sessionId =
     (let analysis = \<lparr>riskScore = 0, anomalies = [], patterns = [], recommendations = []\<rparr>
      in case behaviorData of
           JsUndefined \<Rightarrow> analysis
         | JsNull \<Rightarrow> analysis
         | JsObject b \<Rightarrow>
             behaviorRecommendations b
               (keystrokeRule b (idleTimeRule b (rightClickRule b (tabSwitchRule b analysis)))))"

text \<open>\<open>analyzeBiometricData\<close>: the face rule, then the attention rule, whose first test is
  \<open>attentionScore < 70\<close> and whose \<open>else if\<close> tests \<open>attentionScore < 50\<close>.\<close>

definition faceRule :: "biometricData \<Rightarrow> biometricAnalysis \<Rightarrow> biometricAnalysis" where
  "faceRule m a =
     (if \<not> faceDetected m
      then a\<lparr>riskScore := riskScore a + 30,
             anomalies := anomalies a @
               [\<lparr>an_type = FACE_NOT_DETECTED, an_severity = HIGH, an_confidence = 0.95\<rparr>]\<rparr>
      else a)"

definition attentionRule :: "biometricData \<Rightarrow> biometricAnalysis \<Rightarrow> biometricAnalysis" where
  "attentionRule m a =
     (if attentionScore m < 70
      then a\<lparr>riskScore := riskScore a + 20,
             attentionLevel := LOW_ATTENTION,
             anomalies := anomalies a @
               [\<lparr>an_type = LOW_ATTENTION_SCORE, an_severity = MEDIUM, an_confidence = 0.8\<rparr>]\<rparr>
      else if attentionScore m < 50
      then a\<lparr>riskScore := riskScore a + 40,
             attentionLevel := CRITICAL_ATTENTION,
             anomalies := anomalies a @
               [\<lparr>an_type = CRITICAL_ATTENTION_SCORE, an_severity = HIGH, an_confidence = 0.9\<rparr>]\<rparr>
      else a)"

definition analyzeBiometricData :: "biometricData nullable \<Rightarrow> biometricAnalysis" where
  "analyzeBiometricData biometricData =
     (let analysis = \<lparr>riskScore = 0, anomalies = [], attentionLevel = NORMAL\<rparr>
      in case biometricData of
           JsUndefined \<Rightarrow> analysis
         | JsNull \<Rightarrow> analysis
         | JsObject m \<Rightarrow> attentionRule m (faceRule m analysis))"

subsection \<open>Signature catalog (\<^verbatim>\<open>server.mjs\<close>)\<close>

datatype category =
    Development | Ai_cheating | Cheating | Communication | Remote_access | Recording
  | Virtualization | Browser | Emulation | Monitoring | System

datatype domainCategory =
    Dom_ai | Dom_development | Dom_cheating | Dom_communication | Dom_remote_access

record unauthorizedApp =
  app_name :: string
  app_severity :: severity
  app_category :: category

record commandPattern =
  pat_pattern :: string
  pat_severity :: severity

record domainSignature =
  dom_domain :: string
  dom_category :: domainCategory
  dom_severity :: severity

text \<open>\<open>isDev\<close> is \<open>process.env.NODE_ENV === 'development'\<close>; the catalog lowers the
  severity of some entries in that configuration.\<close>

definition unauthorizedApps :: "bool \<Rightarrow> unauthorizedApp list" where
  "unauthorizedApps isDev =
    [\<lparr>app_name = ''python.exe'', app_severity = HIGH, app_category = Development\<rparr>,
     \<lparr>app_name = ''python3.exe'', app_severity = HIGH, app_category = Development\<rparr>,
     \<lparr>app_name = ''python'', app_severity = HIGH, app_category = Development\<rparr>,
     \<lparr>app_name = ''python3'', app_severity = HIGH, app_category = Development\<rparr>,
     \<lparr>app_name = ''node.exe'', app_severity = (if isDev then LOW else HIGH), app_category = Development\<rparr>,
     \<lparr>app_name = ''node'', app_severity = (if isDev then LOW else HIGH), app_category = Development\<rparr>,
     \<lparr>app_name = ''npm.exe'', app_severity = MEDIUM, app_category = Development\<rparr>,
     \<lparr>app_name = ''npm'', app_severity = MEDIUM, app_category = Development\<rparr>,
     \<lparr>app_name = ''pip.exe'', app_severity = MEDIUM, app_category = Development\<rparr>,
     \<lparr>app_name = ''pip'', app_severity = MEDIUM, app_category = Development\<rparr>,
     \<lparr>app_name = ''chatgpt.exe'', app_severity = CRITICAL, app_category = Ai_cheating\<rparr>,
     \<lparr>app_name = ''claude.exe'', app_severity = CRITICAL, app_category = Ai_cheating\<rparr>,
     \<lparr>app_name = ''copilot.exe'', app_severity = CRITICAL, app_category = Ai_cheating\<rparr>,
     \<lparr>app_name = ''bard.exe'', app_severity = CRITICAL, app_category = Ai_cheating\<rparr>,
     \<lparr>app_name = ''electron.exe'', app_severity = CRITICAL, app_category = Cheating\<rparr>,
     \<lparr>app_name = ''electron'', app_severity = CRITICAL, app_category = Cheating\<rparr>,
     \<lparr>app_name = ''examsoft.exe'', app_severity = CRITICAL, app_category = Cheating\<rparr>,
     \<lparr>app_name = ''proctorio.exe'', app_severity = CRITICAL, app_category = Cheating\<rparr>,
     \<lparr>app_name = ''code.exe'', app_severity = HIGH, app_category = Development\<rparr>,
     \<lparr>app_name = ''code'', app_severity = HIGH, app_category = Development\<rparr>,
     \<lparr>app_name = ''notepad++.exe'', app_severity = MEDIUM, app_category = Development\<rparr>,
     \<lparr>app_name = ''sublime_text.exe'', app_severity = MEDIUM, app_category = Development\<rparr>,
     \<lparr>app_name = ''atom.exe'', app_severity = MEDIUM, app_category = Development\<rparr>,
     \<lparr>app_name = ''webstorm.exe'', app_severity = HIGH, app_category = Development\<rparr>,
     \<lparr>app_name = ''pycharm.exe'', app_severity = HIGH, app_category = Development\<rparr>,
     \<lparr>app_name = ''intellij.exe'', app_severity = HIGH, app_category = Development\<rparr>,
     \<lparr>app_name = ''eclipse.exe'', app_severity = HIGH, app_category = Development\<rparr>,
     \<lparr>app_name = ''cmd.exe'', app_severity = (if isDev then LOW else MEDIUM), app_category = System\<rparr>,
     \<lparr>app_name = ''powershell.exe'', app_severity = (if isDev then LOW else MEDIUM), app_category = System\<rparr>,
     \<lparr>app_name = ''bash'', app_severity = (if isDev then LOW else MEDIUM), app_category = System\<rparr>,
     \<lparr>app_name = ''zsh'', app_severity = (if isDev then LOW else MEDIUM), app_category = System\<rparr>,
     \<lparr>app_name = ''terminal'', app_severity = (if isDev then LOW else MEDIUM), app_category = System\<rparr>,
     \<lparr>app_name = ''iterm2'', app_severity = (if isDev then LOW else MEDIUM), app_category = System\<rparr>,
     \<lparr>app_name = ''teamviewer.exe'', app_severity = CRITICAL, app_category = Remote_access\<rparr>,
     \<lparr>app_name = ''anydesk.exe'', app_severity = CRITICAL, app_category = Remote_access\<rparr>,
     \<lparr>app_name = ''chrome_remote_desktop'', app_severity = CRITICAL, app_category = Remote_access\<rparr>,
     \<lparr>app_name = ''vnc'', app_severity = CRITICAL, app_category = Remote_access\<rparr>,
     \<lparr>app_name = ''rdp'', app_severity = CRITICAL, app_category = Remote_access\<rparr>,
     \<lparr>app_name = ''discord.exe'', app_severity = HIGH, app_category = Communication\<rparr>,
     \<lparr>app_name = ''slack.exe'', app_severity = HIGH, app_category = Communication\<rparr>,
     \<lparr>app_name = ''skype.exe'', app_severity = HIGH, app_category = Communication\<rparr>,
     \<lparr>app_name = ''telegram.exe'', app_severity = HIGH, app_category = Communication\<rparr>,
     \<lparr>app_name = ''whatsapp.exe'', app_severity = HIGH, app_category = Communication\<rparr>,
     \<lparr>app_name = ''zoom.exe'', app_severity = HIGH, app_category = Communication\<rparr>,
     \<lparr>app_name = ''teams.exe'', app_severity = HIGH, app_category = Communication\<rparr>,
     \<lparr>app_name = ''obs64.exe'', app_severity = HIGH, app_category = Recording\<rparr>,
     \<lparr>app_name = ''obs32.exe'', app_severity = HIGH, app_category = Recording\<rparr>,
     \<lparr>app_name = ''bandicam.exe'', app_severity = HIGH, app_category = Recording\<rparr>,
     \<lparr>app_name = ''camtasia.exe'', app_severity = HIGH, app_category = Recording\<rparr>,
     \<lparr>app_name = ''fraps.exe'', app_severity = HIGH, app_category = Recording\<rparr>,
     \<lparr>app_name = ''vmware.exe'', app_severity = CRITICAL, app_category = Virtualization\<rparr>,
     \<lparr>app_name = ''virtualbox.exe'', app_severity = CRITICAL, app_category = Virtualization\<rparr>,
     \<lparr>app_name = ''vmplayer.exe'', app_severity = CRITICAL, app_category = Virtualization\<rparr>,
     \<lparr>app_name = ''qemu.exe'', app_severity = CRITICAL, app_category = Virtualization\<rparr>,
     \<lparr>app_name = ''chrome.exe'', app_severity = LOW, app_category = Browser\<rparr>,
     \<lparr>app_name = ''firefox.exe'', app_severity = LOW, app_category = Browser\<rparr>,
     \<lparr>app_name = ''msedge.exe'', app_severity = LOW, app_category = Browser\<rparr>,
     \<lparr>app_name = ''msedgewebview2.exe'', app_severity = LOW, app_category = Browser\<rparr>,
     \<lparr>app_name = ''safari'', app_severity = LOW, app_category = Browser\<rparr>,
     \<lparr>app_name = ''opera.exe'', app_severity = LOW, app_category = Browser\<rparr>,
     \<lparr>app_name = ''bluestacks.exe'', app_severity = HIGH, app_category = Emulation\<rparr>,
     \<lparr>app_name = ''noxplayer.exe'', app_severity = HIGH, app_category = Emulation\<rparr>,
     \<lparr>app_name = ''ldplayer.exe'', app_severity = HIGH, app_category = Emulation\<rparr>,
     \<lparr>app_name = ''procmon.exe'', app_severity = MEDIUM, app_category = Monitoring\<rparr>,
     \<lparr>app_name = ''procexp.exe'', app_severity = MEDIUM, app_category = Monitoring\<rparr>,
     \<lparr>app_name = ''wireshark.exe'', app_severity = HIGH, app_category = Monitoring\<rparr>,
     \<lparr>app_name = ''fiddler.exe'', app_severity = HIGH, app_category = Monitoring\<rparr>]"

definition suspiciousPatterns :: "commandPattern list" where
  "suspiciousPatterns =
    [\<lparr>pat_pattern = ''main.js'', pat_severity = CRITICAL\<rparr>,
     \<lparr>pat_pattern = ''cheating'', pat_severity = CRITICAL\<rparr>,
     \<lparr>pat_pattern = ''cheat'', pat_severity = CRITICAL\<rparr>,
     \<lparr>pat_pattern = ''hack'', pat_severity = HIGH\<rparr>,
     \<lparr>pat_pattern = ''exploit'', pat_severity = HIGH\<rparr>,
     \<lparr>pat_pattern = ''screenshot'', pat_severity = HIGH\<rparr>,
     \<lparr>pat_pattern = ''screen-capture'', pat_severity = HIGH\<rparr>,
     \<lparr>pat_pattern = ''keylogger'', pat_severity = CRITICAL\<rparr>,
     \<lparr>pat_pattern = ''automation'', pat_severity = HIGH\<rparr>,
     \<lparr>pat_pattern = ''selenium'', pat_severity = HIGH\<rparr>,
     \<lparr>pat_pattern = ''puppeteer'', pat_severity = HIGH\<rparr>,
     \<lparr>pat_pattern = ''playwright'', pat_severity = HIGH\<rparr>,
     \<lparr>pat_pattern = ''cypress'', pat_severity = HIGH\<rparr>,
     \<lparr>pat_pattern = ''remote'', pat_severity = HIGH\<rparr>,
     \<lparr>pat_pattern = ''proxy'', pat_severity = MEDIUM\<rparr>,
     \<lparr>pat_pattern = ''tunnel'', pat_severity = HIGH\<rparr>,
     \<lparr>pat_pattern = ''ngrok'', pat_severity = HIGH\<rparr>,
     \<lparr>pat_pattern = ''ssh'', pat_severity = MEDIUM\<rparr>,
     \<lparr>pat_pattern = ''telnet'', pat_severity = MEDIUM\<rparr>,
     \<lparr>pat_pattern = ''python -c'', pat_severity = HIGH\<rparr>,
     \<lparr>pat_pattern = ''node -e'', pat_severity = HIGH\<rparr>,
     \<lparr>pat_pattern = ''eval('', pat_severity = HIGH\<rparr>,
     \<lparr>pat_pattern = ''exec('', pat_severity = HIGH\<rparr>,
     \<lparr>pat_pattern = ''system('', pat_severity = HIGH\<rparr>,
     \<lparr>pat_pattern = ''shell_exec'', pat_severity = HIGH\<rparr>,
     \<lparr>pat_pattern = ''openai'', pat_severity = CRITICAL\<rparr>,
     \<lparr>pat_pattern = ''chatgpt'', pat_severity = CRITICAL\<rparr>,
     \<lparr>pat_pattern = ''claude'', pat_severity = CRITICAL\<rparr>,
     \<lparr>pat_pattern = ''bard'', pat_severity = CRITICAL\<rparr>,
     \<lparr>pat_pattern = ''copilot'', pat_severity = CRITICAL\<rparr>,
     \<lparr>pat_pattern = ''tensorflow'', pat_severity = HIGH\<rparr>,
     \<lparr>pat_pattern = ''pytorch'', pat_severity = HIGH\<rparr>,
     \<lparr>pat_pattern = ''debugger'', pat_severity = MEDIUM\<rparr>,
     \<lparr>pat_pattern = ''breakpoint'', pat_severity = MEDIUM\<rparr>,
     \<lparr>pat_pattern = ''inspect'', pat_severity = MEDIUM\<rparr>,
     \<lparr>pat_pattern = ''devtools'', pat_severity = HIGH\<rparr>]"

definition suspiciousDomains :: "domainSignature list" where
  "suspiciousDomains =
    [\<lparr>dom_domain = ''chatgpt.com'', dom_category = Dom_ai, dom_severity = CRITICAL\<rparr>,
     \<lparr>dom_domain = ''openai.com'', dom_category = Dom_ai, dom_severity = CRITICAL\<rparr>,
     \<lparr>dom_domain = ''claude.ai'', dom_category = Dom_ai, dom_severity = CRITICAL\<rparr>,
     \<lparr>dom_domain = ''anthropic.com'', dom_category = Dom_ai, dom_severity = CRITICAL\<rparr>,
     \<lparr>dom_domain = ''bard.google.com'', dom_category = Dom_ai, dom_severity = CRITICAL\<rparr>,
     \<lparr>dom_domain = ''copilot.microsoft.com'', dom_category = Dom_ai, dom_severity = CRITICAL\<rparr>,
     \<lparr>dom_domain = ''character.ai'', dom_category = Dom_ai, dom_severity = CRITICAL\<rparr>,
     \<lparr>dom_domain = ''huggingface.co'', dom_category = Dom_ai, dom_severity = HIGH\<rparr>,
     \<lparr>dom_domain = ''stackoverflow.com'', dom_category = Dom_development, dom_severity = HIGH\<rparr>,
     \<lparr>dom_domain = ''github.com'', dom_category = Dom_development, dom_severity = HIGH\<rparr>,
     \<lparr>dom_domain = ''gitlab.com'', dom_category = Dom_development, dom_severity = HIGH\<rparr>,
     \<lparr>dom_domain = ''bitbucket.org'', dom_category = Dom_development, dom_severity = HIGH\<rparr>,
     \<lparr>dom_domain = ''repl.it'', dom_category = Dom_development, dom_severity = HIGH\<rparr>,
     \<lparr>dom_domain = ''codepen.io'', dom_category = Dom_development, dom_severity = HIGH\<rparr>,
     \<lparr>dom_domain = ''jsfiddle.net'', dom_category = Dom_development, dom_severity = HIGH\<rparr>,
     \<lparr>dom_domain = ''codesandbox.io'', dom_category = Dom_development, dom_severity = HIGH\<rparr>,
     \<lparr>dom_domain = ''glitch.com'', dom_category = Dom_development, dom_severity = HIGH\<rparr>,
     \<lparr>dom_domain = ''chegg.com'', dom_category = Dom_cheating, dom_severity = CRITICAL\<rparr>,
     \<lparr>dom_domain = ''coursehero.com'', dom_category = Dom_cheating, dom_severity = CRITICAL\<rparr>,
     \<lparr>dom_domain = ''studyblue.com'', dom_category = Dom_cheating, dom_severity = HIGH\<rparr>,
     \<lparr>dom_domain = ''quizlet.com'', dom_category = Dom_cheating, dom_severity = HIGH\<rparr>,
     \<lparr>dom_domain = ''brainly.com'', dom_category = Dom_cheating, dom_severity = HIGH\<rparr>,
     \<lparr>dom_domain = ''discord.com'', dom_category = Dom_communication, dom_severity = HIGH\<rparr>,
     \<lparr>dom_domain = ''slack.com'', dom_category = Dom_communication, dom_severity = HIGH\<rparr>,
     \<lparr>dom_domain = ''telegram.org'', dom_category = Dom_communication, dom_severity = HIGH\<rparr>,
     \<lparr>dom_domain = ''whatsapp.com'', dom_category = Dom_communication, dom_severity = HIGH\<rparr>,
     \<lparr>dom_domain = ''zoom.us'', dom_category = Dom_communication, dom_severity = MEDIUM\<rparr>,
     \<lparr>dom_domain = ''teamviewer.com'', dom_category = Dom_remote_access, dom_severity = CRITICAL\<rparr>,
     \<lparr>dom_domain = ''anydesk.com'', dom_category = Dom_remote_access, dom_severity = CRITICAL\<rparr>,
     \<lparr>dom_domain = ''chrome.google.com/webstore'', dom_category = Dom_remote_access, dom_severity = HIGH\<rparr>]"

subsection \<open>Network threat scanner (\<^verbatim>\<open>server.mjs\<close>)\<close>

text \<open>\<open>stdout.split('\n')\<close>, and whether \<open>line.trim()\<close> is the empty string.\<close>

fun splitLines :: "string \<Rightarrow> string list" where
  "splitLines [] = [[]]"
| "splitLines (c # s) =
     (if c = CHR 0x0A then [] # splitLines s
      else (case splitLines s of [] \<Rightarrow> [[c]] | l # ls \<Rightarrow> (c # l) # ls))"

definition isSpace :: "char \<Rightarrow> bool" where
  "isSpace c = (c \<in> set [CHR 0x09, CHR 0x0A, CHR 0x0B, CHR 0x0C, CHR 0x0D, CHR 0x20])"

definition isBlank :: "string \<Rightarrow> bool" where
  "isBlank line = list_all isSpace line"

text \<open>The regular expression \<^verbatim>\<open>/\b(?:[0-9]{1,3}\.){3}[0-9]{1,3}\b/\<close>. \<open>digitRuns s\<close> lists
  what is left of \<open>s\<close> after one, two or three leading digits, \<open>octetDot s\<close> what is
  left after such a run and a dot; \<open>ipv4Here s\<close> says that the expression after its
  first \<^verbatim>\<open>\b\<close> matches a prefix of \<open>s\<close>; \<open>ipv4From w s\<close> tries every start
  position of \<open>s\<close>, \<open>w\<close> telling whether the character before it is a word character.\<close>

definition isDigit :: "char \<Rightarrow> bool" where
  "isDigit c = (c \<in> set ''0123456789'')"

definition isWordChar :: "char \<Rightarrow> bool" where
  "isWordChar c =
     (c \<in> set ''abcdefghijklmnopqrstuvwxyzABCDEFGHIJKLMNOPQRSTUVWXYZ0123456789_'')"

definition digitRuns :: "string \<Rightarrow> string list" where
  "digitRuns s =
     map (\<lambda>n. drop n s)
       (filter (\<lambda>n. n \<le> length s \<and> list_all isDigit (take n s)) [1, 2, 3])"

definition octetDot :: "string \<Rightarrow> string list" where
  "octetDot s =
     map tl (filter (\<lambda>r. case r of [] \<Rightarrow> False | c # _ \<Rightarrow> c = CHR ''.'') (digitRuns s))"

definition ipv4Here :: "string \<Rightarrow> bool" where
  "ipv4Here s =
     list_ex (\<lambda>r. case r of [] \<Rightarrow> True | c # _ \<Rightarrow> \<not> isWordChar c)
       (concat (map digitRuns (concat (map octetDot (concat (map octetDot (octetDot s)))))))"

fun ipv4From :: "bool \<Rightarrow> string \<Rightarrow> bool" where
  "ipv4From w [] = False"
| "ipv4From w (c # s) = ((\<not> w \<and> ipv4Here (c # s)) \<or> ipv4From (isWordChar c) s)"

definition ipMatch :: "string \<Rightarrow> bool" where
  "ipMatch conn = ipv4From False conn"

record connectionStats =
  total :: nat
  external :: nat
  suspicious_count :: nat

record networkThreats =
  suspiciousConnections :: "domainSignature list"
  connectionStats :: connectionStats
  net_error :: "string option"

text \<open>The callback of \<open>connections.some\<close>, and the body of the loop over the catalog.\<close>

definition connectionNames :: "domainSignature \<Rightarrow> string \<Rightarrow> bool" where
  "connectionNames domain conn =
     (if ipMatch conn
      then includes_str (toLowerCase conn) (toLowerCase (dom_domain domain))
      else False)"

definition scanDomain ::
  "string list \<Rightarrow> networkThreats \<Rightarrow> domainSignature \<Rightarrow> networkThreats" where
  "scanDomain connections r domain =
     (let found = list_ex (connectionNames domain) connections
      in if found
         then r\<lparr>suspiciousConnections := suspiciousConnections r @
                  [\<lparr>dom_domain = dom_domain domain, dom_category = dom_category domain,
                    dom_severity = dom_severity domain\<rparr>],
                connectionStats := (connectionStats r)
                  \<lparr>suspicious_count := suspicious_count (connectionStats r) + 1\<rparr>\<rparr>
         else r)"

definition isExternal :: "string \<Rightarrow> bool" where
  "isExternal conn =
     (\<not> includes_str conn ''127.0.0.1'' \<and> \<not> includes_str conn ''::1'' \<and>
      \<not> includes_str conn ''localhost'')"

definition connectionLines :: "string \<Rightarrow> string list" where
  "connectionLines stdout = filter (\<lambda>line. \<not> isBlank line) (splitLines stdout)"

text \<open>\<open>netstat\<close> is the outcome of \<open>execPromise(command)\<close>: the text of \<open>stdout\<close>, or the
  message of the error thrown.\<close>

definition checkNetworkConnections :: "string + string \<Rightarrow> networkThreats" where
  "checkNetworkConnections netstat =
     (case netstat of
        Inr stdout \<Rightarrow>
          (let connections = connectionLines stdout;
               r0 = \<lparr>suspiciousConnections = [],
                     connectionStats =
                       \<lparr>total = length connections, external = 0, suspicious_count = 0\<rparr>,
                     net_error = None\<rparr>;
               r1 = foldl (scanDomain connections) r0 suspiciousDomains
           in r1\<lparr>connectionStats := (connectionStats r1)
                    \<lparr>external := length (filter isExternal connections)\<rparr>\<rparr>)
      | Inl message \<Rightarrow>
          \<lparr>suspiciousConnections = [],
           connectionStats = \<lparr>total = 0, external = 0, suspicious_count = 0\<rparr>,
           net_error = Some message\<rparr>)"

subsection \<open>Process classifier (\<^verbatim>\<open>server.mjs\<close>)\<close>

text \<open>A process as \<open>psList\<close> reports it. An absent \<open>name\<close> or \<open>cmd\<close> is the empty
  string: every use of either field is guarded by its truthiness (\<open>proc.cmd && ...\<close>,
  \<open>proc.name || 'unknown'\<close>), which \<open>undefined\<close> and \<open>''\<close> share.\<close>

record process =
  pid :: nat
  name :: string
  cmd :: string

record unauthorizedFinding =
  u_name :: string
  u_pid :: nat
  u_cmd :: string
  u_severity :: severity
  u_category :: category

record suspiciousFinding =
  s_name :: string
  s_pid :: nat
  s_cmd :: string
  s_severity :: severity

record browserInstance =
  browser :: string
  count :: nat
  threat_level :: severity

record processPatterns =
  pp_development :: nat
  pp_communication :: nat
  pp_cheating :: nat
  pp_suspicious :: nat

record findings =
  unauthorized :: "unauthorizedFinding list"
  suspicious :: "suspiciousFinding list"

text \<open>The state of the loop over the processes: the two result lists, and the locals
  \<open>browserCounts\<close> (an object, listed by \<open>Object.entries\<close> in insertion order) and
  \<open>processPatterns\<close>.\<close>

record scan = findings +
  browserCounts :: "(string \<times> nat) list"
  processPatterns :: processPatterns

record results = findings +
  browserInstances :: "browserInstance list"
  networkThreats :: networkThreats
  processCount :: nat
  ai_riskScore :: int

definition isServerProcess :: "bool \<Rightarrow> process \<Rightarrow> bool" where
  "isServerProcess isDev proc =
     (isDev \<and> name proc \<noteq> [] \<and> cmd proc \<noteq> [] \<and>
      (toLowerCase (name proc) = ''node.exe'' \<or> toLowerCase (name proc) = ''node'') \<and>
      includes_str (cmd proc) ''server.mjs'')"

definition findUnauthorizedApp :: "bool \<Rightarrow> process \<Rightarrow> unauthorizedApp option" where
  "findUnauthorizedApp isDev proc =
     find (\<lambda>app. name proc \<noteq> [] \<and> toLowerCase (name proc) = toLowerCase (app_name app))
       (unauthorizedApps isDev)"

definition findSuspiciousPattern :: "process \<Rightarrow> commandPattern option" where
  "findSuspiciousPattern proc =
     find (\<lambda>pattern. includes_str (toLowerCase (cmd proc)) (toLowerCase (pat_pattern pattern)))
       suspiciousPatterns"

text \<open>The value of \<open>threat_level\<close> when the finding is pushed.\<close>

definition threatLevel :: "unauthorizedApp \<Rightarrow> process \<Rightarrow> severity" where
  "threatLevel app proc =
     (let t0 = app_severity app;
          t1 = (if name proc \<noteq> [] \<and> includes_str (toLowerCase (name proc)) ''electron''
                then (if cmd proc \<noteq> [] \<and> includes_str (cmd proc) ''main.js'' then CRITICAL
                      else if cmd proc \<noteq> [] \<and> includes_str (cmd proc) ''.asar'' then HIGH
                      else t0)
                else t0)
      in if cmd proc \<noteq> []
         then (case findSuspiciousPattern proc of
                 Some pattern \<Rightarrow> pat_severity pattern
               | None \<Rightarrow> t1)
         else t1)"

text \<open>\<open>if (category in processPatterns) processPatterns[category]++\<close>: the keys of
  \<open>processPatterns\<close> are \<open>development\<close>, \<open>communication\<close>, \<open>cheating\<close> and \<open>suspicious\<close>,
  and no category of the catalog is called \<open>suspicious\<close>.\<close>

fun countCategory :: "category \<Rightarrow> processPatterns \<Rightarrow> processPatterns" where
  "countCategory Development pp = pp\<lparr>pp_development := pp_development pp + 1\<rparr>"
| "countCategory Communication pp = pp\<lparr>pp_communication := pp_communication pp + 1\<rparr>"
| "countCategory Cheating pp = pp\<lparr>pp_cheating := pp_cheating pp + 1\<rparr>"
| "countCategory c pp = pp"

definition isBrowserName :: "string \<Rightarrow> bool" where
  "isBrowserName n =
     (includes_str n ''chrome'' \<or> includes_str n ''firefox'' \<or> includes_str n ''safari'' \<or>
      includes_str n ''msedge'' \<or> includes_str n ''msedgewebview2'')"

text \<open>\<open>browserCounts[browserName] = (browserCounts[browserName] || 0) + 1\<close>.\<close>

fun bumpCount :: "(string \<times> nat) list \<Rightarrow> string \<Rightarrow> (string \<times> nat) list" where
  "bumpCount [] k = [(k, 1)]"
| "bumpCount ((k', n) # kvs) k =
     (if k' = k then (k', n + 1) # kvs else (k', n) # bumpCount kvs k)"

definition scanProcess :: "bool \<Rightarrow> scan \<Rightarrow> process \<Rightarrow> scan" where
  "scanProcess isDev st proc =
     (if isServerProcess isDev proc then st
      else
        let unauthorizedApp = findUnauthorizedApp isDev proc;
            st1 = (case unauthorizedApp of
                     None \<Rightarrow> st
                   | Some app \<Rightarrow>
                       st\<lparr>unauthorized := unauthorized st @
                            [\<lparr>u_name = (if name proc = [] then ''unknown'' else name proc),
                              u_pid = pid proc,
                              u_cmd = (if cmd proc = []
                                       then ''No command-line details available''
                                       else cmd proc),
                              u_severity = threatLevel app proc,
                              u_category = app_category app\<rparr>],
                          processPatterns :=
                            countCategory (app_category app) (processPatterns st)\<rparr>);
            st2 = (if name proc \<noteq> [] \<and> isBrowserName (toLowerCase (name proc))
                   then st1\<lparr>browserCounts :=
                              bumpCount (browserCounts st1) (toLowerCase (name proc))\<rparr>
                   else st1)
        in if cmd proc \<noteq> []
           then (case findSuspiciousPattern proc of
                   None \<Rightarrow> st2
                 | Some pattern \<Rightarrow>
                     if unauthorizedApp = None
                     then st2\<lparr>suspicious := suspicious st2 @
                                [\<lparr>s_name = (if name proc = [] then ''unknown'' else name proc),
                                  s_pid = pid proc,
                                  s_cmd = cmd proc,
                                  s_severity = pat_severity pattern\<rparr>],
                              processPatterns := (processPatterns st2)
                                \<lparr>pp_suspicious := pp_suspicious (processPatterns st2) + 1\<rparr>\<rparr>
                     else st2)
           else st2)"

definition emptyScan :: scan where
  "emptyScan =
     \<lparr>unauthorized = [], suspicious = [], browserCounts = [],
      processPatterns =
        \<lparr>pp_development = 0, pp_communication = 0, pp_cheating = 0, pp_suspicious = 0\<rparr>\<rparr>"

definition browserThreshold :: "bool \<Rightarrow> nat" where
  "browserThreshold isDev = (if isDev then 20 else 8)"

definition browserEntry ::
  "bool \<Rightarrow> browserInstance list \<Rightarrow> string \<times> nat \<Rightarrow> browserInstance list" where
  "browserEntry isDev acc entry =
     (case entry of (b, c) \<Rightarrow>
        if c > browserThreshold isDev
        then acc @ [\<lparr>browser = b, count = c,
                     threat_level =
                       (if c > browserThreshold isDev + 10 then HIGH else MEDIUM)\<rparr>]
        else acc)"

text \<open>\<open>psList\<close> is the outcome of \<open>psList({ all: false })\<close>; when it throws, the
  \<open>catch\<close> of \<open>analyzeProcesses\<close> logs and rethrows.\<close>

definition analyzeProcesses ::
  "bool \<Rightarrow> string + process list \<Rightarrow> string + string \<Rightarrow> string + results" where
  "analyzeProcesses isDev psList netstat =
     (case psList of
        Inl message \<Rightarrow> Inl message
      | Inr processes \<Rightarrow>
          (let threats = checkNetworkConnections netstat;
               st = foldl (scanProcess isDev) emptyScan processes;
               pp = processPatterns st
           in Inr \<lparr>unauthorized = unauthorized st,
                   suspicious = suspicious st,
                   browserInstances = foldl (browserEntry isDev) [] (browserCounts st),
                   networkThreats = threats,
                   processCount = length processes,
                   ai_riskScore =
                     int (pp_cheating pp * 40 + pp_development pp * 15 +
                          pp_communication pp * 10 + pp_suspicious pp * 25 +
                          length (suspiciousConnections threats) * 20)\<rparr>))"

subsection \<open>Violation aggregator (\<^verbatim>\<open>server.mjs\<close>)\<close>

record violation =
  v_type :: violationType
  v_severity :: severity

record summary =
  totalViolations :: nat
  criticalViolations :: nat
  highViolations :: nat
  mediumViolations :: nat
  lowViolations :: nat

record aiInsights =
  overallRiskScore :: int
  behaviorAnalysis :: "behaviorAnalysis option"
  biometricAnalysis :: "biometricAnalysis option"
  ai_recommendations :: "string list"

record report =
  report_severity :: severity
  violations :: "violation list"
  summary :: summary
  aiInsights :: aiInsights

text \<open>\<open>report.summary.totalViolations++\<close> followed by
  \<open>report.summary[`${severity.toLowerCase()}Violations`]++\<close>.\<close>

fun tally :: "severity \<Rightarrow> summary \<Rightarrow> summary" where
  "tally CRITICAL s = s\<lparr>criticalViolations := criticalViolations s + 1\<rparr>"
| "tally HIGH s = s\<lparr>highViolations := highViolations s + 1\<rparr>"
| "tally MEDIUM s = s\<lparr>mediumViolations := mediumViolations s + 1\<rparr>"
| "tally LOW s = s\<lparr>lowViolations := lowViolations s + 1\<rparr>"
| "tally CLEAN s = s"

definition pushViolation :: "violationType \<Rightarrow> severity \<Rightarrow> report \<Rightarrow> report" where
  "pushViolation t sev report =
     report\<lparr>violations := violations report @ [\<lparr>v_type = t, v_severity = sev\<rparr>],
            summary := tally sev
              ((summary report)\<lparr>totalViolations := totalViolations (summary report) + 1\<rparr>)\<rparr>"

text \<open>The bodies of the four \<open>forEach\<close> loops over the results, each ending with its own
  update of \<open>report.severity\<close>.\<close>

definition addUnauthorized :: "report \<Rightarrow> unauthorizedFinding \<Rightarrow> report" where
  "addUnauthorized report app =
     (let r = pushViolation UNAUTHORIZED_APPLICATION (u_severity app) report
      in if u_severity app = CRITICAL \<and> report_severity r \<noteq> CRITICAL
         then r\<lparr>report_severity := CRITICAL\<rparr>
         else if u_severity app = HIGH \<and> report_severity r \<notin> {CRITICAL}
         then r\<lparr>report_severity := HIGH\<rparr>
         else if u_severity app = MEDIUM \<and> report_severity r \<notin> {CRITICAL, HIGH}
         then r\<lparr>report_severity := MEDIUM\<rparr>
         else r)"

definition addSuspicious :: "report \<Rightarrow> suspiciousFinding \<Rightarrow> report" where
  "addSuspicious report activity =
     (let r = pushViolation SUSPICIOUS_ACTIVITY (s_severity activity) report
      in if s_severity activity = HIGH \<and> report_severity r \<notin> {CRITICAL}
         then r\<lparr>report_severity := HIGH\<rparr>
         else if report_severity r \<notin> {CRITICAL, HIGH}
         then r\<lparr>report_severity := MEDIUM\<rparr>
         else r)"

definition addNetworkThreat :: "report \<Rightarrow> domainSignature \<Rightarrow> report" where
  "addNetworkThreat report threat =
     (let r = pushViolation SUSPICIOUS_NETWORK_ACTIVITY (dom_severity threat) report
      in if dom_severity threat = CRITICAL \<and> report_severity r \<noteq> CRITICAL
         then r\<lparr>report_severity := CRITICAL\<rparr>
         else if dom_severity threat = HIGH \<and> report_severity r \<notin> {CRITICAL}
         then r\<lparr>report_severity := HIGH\<rparr>
         else r)"

definition addBrowser :: "report \<Rightarrow> browserInstance \<Rightarrow> report" where
  "addBrowser report b =
     (let r = pushViolation SUSPICIOUS_BROWSER_ACTIVITY (threat_level b) report
      in if threat_level b = HIGH \<and> report_severity r \<notin> {CRITICAL}
         then r\<lparr>report_severity := HIGH\<rparr>
         else if report_severity r \<notin> {CRITICAL, HIGH}
         then r\<lparr>report_severity := MEDIUM\<rparr>
         else r)"

text \<open>The body of the loops over the anomalies of the two analyzers: the violation is
  pushed and tallied; \<open>report.severity\<close> is not assigned.\<close>

definition addAnomaly :: "report \<Rightarrow> anomaly \<Rightarrow> report" where
  "addAnomaly report anomaly = pushViolation (an_type anomaly) (an_severity anomaly) report"

definition addBehavior :: "behaviorMetrics nullable \<Rightarrow> string option \<Rightarrow> report \<Rightarrow> report" where
  "addBehavior behaviorData sessionId report =
     (case behaviorData of
        JsObject b \<Rightarrow>
          (let a = analyzeBehaviorMetrics behaviorData sessionId;
               r = report\<lparr>aiInsights := (aiInsights report)\<lparr>behaviorAnalysis := Some a\<rparr>\<rparr>
           in foldl addAnomaly r (anomalies a))
      | JsNull \<Rightarrow> report
      | JsUndefined \<Rightarrow> report)"

definition addBiometric :: "biometricData nullable \<Rightarrow> report \<Rightarrow> report" where
  "addBiometric biometricData report =
     (case biometricData of
        JsObject m \<Rightarrow>
          (let a = analyzeBiometricData biometricData;
               r = report\<lparr>aiInsights := (aiInsights report)\<lparr>biometricAnalysis := Some a\<rparr>\<rparr>
           in foldl addAnomaly r (anomalies a))
      | JsNull \<Rightarrow> report
      | JsUndefined \<Rightarrow> report)"

text \<open>\<open>x?.riskScore || 0\<close> for an analysis that may be \<open>null\<close>.\<close>

definition riskScoreOr0 :: "('a analysis_scheme) option \<Rightarrow> int" where
  "riskScoreOr0 a = (case a of None \<Rightarrow> 0 | Some x \<Rightarrow> riskScore x)"

definition scoreAndRecommend :: "results \<Rightarrow> report \<Rightarrow> report" where
  "scoreAndRecommend results report =
     (let score = ai_riskScore results
                  + riskScoreOr0 (behaviorAnalysis (aiInsights report))
                  + riskScoreOr0 (biometricAnalysis (aiInsights report));
          rec1 = (if score > 100
                  then [''IMMEDIATE INTERVENTION REQUIRED'',
                        ''Consider terminating interview session'']
                  else if score > 50
                  then [''Increase monitoring frequency'',
                        ''Enable additional security measures'']
                  else []);
          rec2 = (if criticalViolations (summary report) > 0
                  then [''Critical violations detected - manual review required'']
                  else [])
      in report\<lparr>aiInsights := (aiInsights report)
                 \<lparr>overallRiskScore := score,
                  ai_recommendations := ai_recommendations (aiInsights report) @ rec1 @ rec2\<rparr>\<rparr>)"

definition emptyReport :: report where
  "emptyReport =
     \<lparr>report_severity = CLEAN, violations = [],
      summary = \<lparr>totalViolations = 0, criticalViolations = 0, highViolations = 0,
                 mediumViolations = 0, lowViolations = 0\<rparr>,
      aiInsights = \<lparr>overallRiskScore = 0, behaviorAnalysis = None, biometricAnalysis = None,
                    ai_recommendations = []\<rparr>\<rparr>"

definition generateViolationReport ::
  "results \<Rightarrow> behaviorMetrics nullable \<Rightarrow> biometricData nullable \<Rightarrow> string option \<Rightarrow> report"
  where
  "generateViolationReport results behaviorData biometricData sessionId =
     (let r1 = foldl addUnauthorized emptyReport (unauthorized results);
          r2 = foldl addSuspicious r1 (suspicious results);
          r3 = foldl addNetworkThreat r2 (suspiciousConnections (networkThreats results));
          r4 = foldl addBrowser r3 (browserInstances results);
          r5 = addBehavior behaviorData sessionId r4;
          r6 = addBiometric biometricData r5
      in scoreAndRecommend results r6)"

subsection \<open>The handler of \<^verbatim>\<open>GET /api/check-processes\<close> (\<^verbatim>\<open>server.mjs\<close>)\<close>

record response =
  httpStatus :: nat
  status :: string
  response_severity :: "severity option"
  response_report :: "report option"

definition checkProcesses ::
  "bool \<Rightarrow> string + process list \<Rightarrow> string + string \<Rightarrow> string \<Rightarrow> response" where
  "checkProcesses isDev psList netstat sessionId =
     (case analyzeProcesses isDev psList netstat of
        Inr analysisResults \<Rightarrow>
          (let violationReport =
                 generateViolationReport analysisResults JsNull JsNull (Some sessionId)
           in \<lparr>httpStatus = 200,
               status = (if report_severity violationReport = CLEAN
                         then ''clear'' else ''violations_detected''),
               response_severity = Some (report_severity violationReport),
               response_report = Some violationReport\<rparr>)
      | Inl message \<Rightarrow>
          \<lparr>httpStatus = 500, status = ''error'', response_severity = None,
           response_report = None\<rparr>)"

subsection \<open>The basic server (\<^verbatim>\<open>part_000\<close>)\<close>

record unauthorizedApp_v2 =
  app2_name :: string
  app2_severity :: severity

definition unauthorizedApps_v2 :: "unauthorizedApp_v2 list" where
  "unauthorizedApps_v2 =
    [\<lparr>app2_name = ''python.exe'', app2_severity = HIGH\<rparr>,
     \<lparr>app2_name = ''python3.exe'', app2_severity = HIGH\<rparr>,
     \<lparr>app2_name = ''python'', app2_severity = HIGH\<rparr>,
     \<lparr>app2_name = ''python3'', app2_severity = HIGH\<rparr>,
     \<lparr>app2_name = ''node.exe'', app2_severity = HIGH\<rparr>,
     \<lparr>app2_name = ''node'', app2_severity = HIGH\<rparr>,
     \<lparr>app2_name = ''npm.exe'', app2_severity = MEDIUM\<rparr>,
     \<lparr>app2_name = ''npm'', app2_severity = MEDIUM\<rparr>,
     \<lparr>app2_name = ''pip.exe'', app2_severity = MEDIUM\<rparr>,
     \<lparr>app2_name = ''pip'', app2_severity = MEDIUM\<rparr>,
     \<lparr>app2_name = ''electron.exe'', app2_severity = CRITICAL\<rparr>,
     \<lparr>app2_name = ''electron'', app2_severity = CRITICAL\<rparr>,
     \<lparr>app2_name = ''code.exe'', app2_severity = HIGH\<rparr>,
     \<lparr>app2_name = ''code'', app2_severity = HIGH\<rparr>,
     \<lparr>app2_name = ''notepad++.exe'', app2_severity = MEDIUM\<rparr>,
     \<lparr>app2_name = ''sublime_text.exe'', app2_severity = MEDIUM\<rparr>,
     \<lparr>app2_name = ''atom.exe'', app2_severity = MEDIUM\<rparr>,
     \<lparr>app2_name = ''webstorm.exe'', app2_severity = HIGH\<rparr>,
     \<lparr>app2_name = ''pycharm.exe'', app2_severity = HIGH\<rparr>,
     \<lparr>app2_name = ''intellij.exe'', app2_severity = HIGH\<rparr>,
     \<lparr>app2_name = ''eclipse.exe'', app2_severity = HIGH\<rparr>,
     \<lparr>app2_name = ''cmd.exe'', app2_severity = MEDIUM\<rparr>,
     \<lparr>app2_name = ''powershell.exe'', app2_severity = MEDIUM\<rparr>,
     \<lparr>app2_name = ''bash'', app2_severity = MEDIUM\<rparr>,
     \<lparr>app2_name = ''zsh'', app2_severity = MEDIUM\<rparr>,
     \<lparr>app2_name = ''terminal'', app2_severity = MEDIUM\<rparr>,
     \<lparr>app2_name = ''iterm2'', app2_severity = MEDIUM\<rparr>,
     \<lparr>app2_name = ''teamviewer.exe'', app2_severity = CRITICAL\<rparr>,
     \<lparr>app2_name = ''anydesk.exe'', app2_severity = CRITICAL\<rparr>,
     \<lparr>app2_name = ''chrome_remote_desktop'', app2_severity = CRITICAL\<rparr>,
     \<lparr>app2_name = ''vnc'', app2_severity = CRITICAL\<rparr>,
     \<lparr>app2_name = ''discord.exe'', app2_severity = HIGH\<rparr>,
     \<lparr>app2_name = ''slack.exe'', app2_severity = HIGH\<rparr>,
     \<lparr>app2_name = ''skype.exe'', app2_severity = HIGH\<rparr>,
     \<lparr>app2_name = ''telegram.exe'', app2_severity = HIGH\<rparr>,
     \<lparr>app2_name = ''whatsapp.exe'', app2_severity = HIGH\<rparr>,
     \<lparr>app2_name = ''obs64.exe'', app2_severity = HIGH\<rparr>,
     \<lparr>app2_name = ''obs32.exe'', app2_severity = HIGH\<rparr>,
     \<lparr>app2_name = ''bandicam.exe'', app2_severity = HIGH\<rparr>,
     \<lparr>app2_name = ''camtasia.exe'', app2_severity = HIGH\<rparr>,
     \<lparr>app2_name = ''vmware.exe'', app2_severity = CRITICAL\<rparr>,
     \<lparr>app2_name = ''virtualbox.exe'', app2_severity = CRITICAL\<rparr>,
     \<lparr>app2_name = ''vmplayer.exe'', app2_severity = CRITICAL\<rparr>,
     \<lparr>app2_name = ''chrome.exe'', app2_severity = LOW\<rparr>,
     \<lparr>app2_name = ''firefox.exe'', app2_severity = LOW\<rparr>,
     \<lparr>app2_name = ''msedge.exe'', app2_severity = LOW\<rparr>,
     \<lparr>app2_name = ''safari'', app2_severity = LOW\<rparr>]"

definition suspiciousPatterns_v2 :: "string list" where
  "suspiciousPatterns_v2 =
    [''main.js'',
     ''cheating'',
     ''screenshot'',
     ''keylogger'',
     ''automation'',
     ''selenium'',
     ''puppeteer'',
     ''playwright'',
     ''cypress'',
     ''remote'',
     ''proxy'',
     ''tunnel'',
     ''ngrok'',
     ''localhost:'',
     ''python -c'',
     ''node -e'',
     ''eval('',
     ''exec('',
     ''system('',
     ''shell_exec'']"

definition suspiciousDomains_v2 :: "string list" where
  "suspiciousDomains_v2 =
    [''chatgpt.com'',
     ''openai.com'',
     ''claude.ai'',
     ''bard.google.com'',
     ''copilot.microsoft.com'',
     ''stackoverflow.com'',
     ''github.com'',
     ''gitlab.com'',
     ''bitbucket.org'',
     ''repl.it'',
     ''codepen.io'',
     ''jsfiddle.net'',
     ''codesandbox.io'',
     ''chegg.com'',
     ''coursehero.com'']"

text \<open>\<open>checkNetworkConnections\<close> of \<^verbatim>\<open>part_000\<close> returns the matching domains alone, and
  the empty list when \<open>netstat\<close> throws.\<close>

definition connectionLines_v2 :: "string \<Rightarrow> string list" where
  "connectionLines_v2 stdout =
     filter (\<lambda>line. \<not> isBlank line \<and> includes_str line ''ESTABLISHED'') (splitLines stdout)"

definition scanDomain_v2 :: "string list \<Rightarrow> string list \<Rightarrow> string \<Rightarrow> string list" where
  "scanDomain_v2 connections acc domain =
     (let found = list_ex (\<lambda>conn. includes_str conn domain) connections
      in if found then acc @ [domain] else acc)"

definition checkNetworkConnections_v2 :: "string + string \<Rightarrow> string list" where
  "checkNetworkConnections_v2 netstat =
     (case netstat of
        Inr stdout \<Rightarrow>
          foldl (scanDomain_v2 (connectionLines_v2 stdout)) [] suspiciousDomains_v2
      | Inl message \<Rightarrow> [])"

record unauthorizedFinding_v2 =
  u2_name :: string
  u2_pid :: nat
  u2_cmd :: string
  u2_severity :: severity

record suspiciousFinding_v2 =
  s2_name :: string
  s2_pid :: nat
  s2_cmd :: string

record findings_v2 =
  unauthorized_v2 :: "unauthorizedFinding_v2 list"
  suspicious_v2 :: "suspiciousFinding_v2 list"

record scan_v2 = findings_v2 +
  browserCounts_v2 :: "(string \<times> nat) list"

record results_v2 = findings_v2 +
  browserInstances_v2 :: "browserInstance list"
  networkThreats_v2 :: "string list"
  processCount_v2 :: nat

definition findUnauthorizedApp_v2 :: "process \<Rightarrow> unauthorizedApp_v2 option" where
  "findUnauthorizedApp_v2 proc =
     find (\<lambda>app. name proc \<noteq> [] \<and> toLowerCase (name proc) = toLowerCase (app2_name app))
       unauthorizedApps_v2"

definition hasSuspiciousPattern_v2 :: "process \<Rightarrow> bool" where
  "hasSuspiciousPattern_v2 proc =
     list_ex (\<lambda>pattern. includes_str (toLowerCase (cmd proc)) (toLowerCase pattern))
       suspiciousPatterns_v2"

definition threatLevel_v2 :: "unauthorizedApp_v2 \<Rightarrow> process \<Rightarrow> severity" where
  "threatLevel_v2 app proc =
     (let t0 = app2_severity app;
          t1 = (if name proc \<noteq> [] \<and> includes_str (toLowerCase (name proc)) ''electron''
                then (if cmd proc \<noteq> [] \<and> includes_str (cmd proc) ''main.js'' then CRITICAL
                      else if cmd proc \<noteq> [] \<and> includes_str (cmd proc) ''.asar'' then HIGH
                      else t0)
                else t0);
          suspiciousCmd = (if cmd proc \<noteq> [] then hasSuspiciousPattern_v2 proc else False)
      in if suspiciousCmd then CRITICAL else t1)"

definition isBrowserName_v2 :: "string \<Rightarrow> bool" where
  "isBrowserName_v2 n =
     (includes_str n ''chrome'' \<or> includes_str n ''firefox'' \<or> includes_str n ''safari'' \<or>
      includes_str n ''edge'')"

definition scanProcess_v2 :: "scan_v2 \<Rightarrow> process \<Rightarrow> scan_v2" where
  "scanProcess_v2 st proc =
     (let st1 = (case findUnauthorizedApp_v2 proc of
                   None \<Rightarrow> st
                 | Some app \<Rightarrow>
                     st\<lparr>unauthorized_v2 := unauthorized_v2 st @
                          [\<lparr>u2_name = (if name proc = [] then ''unknown'' else name proc),
                            u2_pid = pid proc,
                            u2_cmd = (if cmd proc = [] then ''N/A'' else cmd proc),
                            u2_severity = threatLevel_v2 app proc\<rparr>]\<rparr>);
          st2 = (if name proc \<noteq> [] \<and> isBrowserName_v2 (toLowerCase (name proc))
                 then st1\<lparr>browserCounts_v2 :=
                            bumpCount (browserCounts_v2 st1) (toLowerCase (name proc))\<rparr>
                 else st1)
      in if cmd proc \<noteq> [] \<and> hasSuspiciousPattern_v2 proc
         then st2\<lparr>suspicious_v2 := suspicious_v2 st2 @
                    [\<lparr>s2_name = (if name proc = [] then ''unknown'' else name proc),
                      s2_pid = pid proc,
                      s2_cmd = cmd proc\<rparr>]\<rparr>
         else st2)"

definition emptyScan_v2 :: scan_v2 where
  "emptyScan_v2 = \<lparr>unauthorized_v2 = [], suspicious_v2 = [], browserCounts_v2 = []\<rparr>"

definition browserEntry_v2 ::
  "browserInstance list \<Rightarrow> string \<times> nat \<Rightarrow> browserInstance list" where
  "browserEntry_v2 acc entry =
     (case entry of (b, c) \<Rightarrow>
        if c > 3
        then acc @ [\<lparr>browser = b, count = c,
                     threat_level = (if c > 5 then HIGH else MEDIUM)\<rparr>]
        else acc)"

definition analyzeProcesses_v2 ::
  "string + process list \<Rightarrow> string + string \<Rightarrow> string + results_v2" where
  "analyzeProcesses_v2 psList netstat =
     (case psList of
        Inl message \<Rightarrow> Inl message
      | Inr processes \<Rightarrow>
          (let st = foldl scanProcess_v2 emptyScan_v2 processes
           in Inr \<lparr>unauthorized_v2 = unauthorized_v2 st,
                   suspicious_v2 = suspicious_v2 st,
                   browserInstances_v2 = foldl browserEntry_v2 [] (browserCounts_v2 st),
                   networkThreats_v2 = checkNetworkConnections_v2 netstat,
                   processCount_v2 = length processes\<rparr>))"

record report_v2 =
  report_severity_v2 :: severity
  violations_v2 :: "violation list"
  summary_v2 :: summary

definition pushViolation_v2 :: "violationType \<Rightarrow> severity \<Rightarrow> report_v2 \<Rightarrow> report_v2" where
  "pushViolation_v2 t sev report =
     report\<lparr>violations_v2 := violations_v2 report @ [\<lparr>v_type = t, v_severity = sev\<rparr>],
            summary_v2 := tally sev
              ((summary_v2 report)
                 \<lparr>totalViolations := totalViolations (summary_v2 report) + 1\<rparr>)\<rparr>"

definition addUnauthorized_v2 :: "report_v2 \<Rightarrow> unauthorizedFinding_v2 \<Rightarrow> report_v2" where
  "addUnauthorized_v2 report app =
     (let r = pushViolation_v2 UNAUTHORIZED_APPLICATION (u2_severity app) report
      in if u2_severity app = CRITICAL \<and> report_severity_v2 r \<noteq> CRITICAL
         then r\<lparr>report_severity_v2 := CRITICAL\<rparr>
         else if u2_severity app = HIGH \<and> report_severity_v2 r = CLEAN
         then r\<lparr>report_severity_v2 := HIGH\<rparr>
         else r)"

definition addSuspicious_v2 :: "report_v2 \<Rightarrow> suspiciousFinding_v2 \<Rightarrow> report_v2" where
  "addSuspicious_v2 report activity = pushViolation_v2 SUSPICIOUS_ACTIVITY MEDIUM report"

definition addNetworkThreat_v2 :: "report_v2 \<Rightarrow> string \<Rightarrow> report_v2" where
  "addNetworkThreat_v2 report domain =
     (let r = pushViolation_v2 SUSPICIOUS_NETWORK_ACTIVITY HIGH report
      in if report_severity_v2 r = CLEAN then r\<lparr>report_severity_v2 := HIGH\<rparr> else r)"

definition addBrowser_v2 :: "report_v2 \<Rightarrow> browserInstance \<Rightarrow> report_v2" where
  "addBrowser_v2 report b = pushViolation_v2 SUSPICIOUS_BROWSER_ACTIVITY (threat_level b) report"

definition generateViolationReport_v2 :: "results_v2 \<Rightarrow> report_v2" where
  "generateViolationReport_v2 results =
     (let r0 = \<lparr>report_severity_v2 = CLEAN, violations_v2 = [],
                summary_v2 = \<lparr>totalViolations = 0, criticalViolations = 0,
                              highViolations = 0, mediumViolations = 0,
                              lowViolations = 0\<rparr>\<rparr>;
          r1 = foldl addUnauthorized_v2 r0 (unauthorized_v2 results);
          r2 = foldl addSuspicious_v2 r1 (suspicious_v2 results);
          r3 = foldl addNetworkThreat_v2 r2 (networkThreats_v2 results)
      in foldl addBrowser_v2 r3 (browserInstances_v2 results))"

subsection \<open>Notions used to state the properties\<close>

text \<open>A process whose name equals, case-insensitively, the name of some entry of the
  catalog.\<close>

definition catalogMatch :: "bool \<Rightarrow> process \<Rightarrow> bool" where
  "catalogMatch isDev proc =
     (\<exists>app \<in> set (unauthorizedApps isDev). toLowerCase (name proc) = toLowerCase (app_name app))"

definition catalogMatch_v2 :: "process \<Rightarrow> bool" where
  "catalogMatch_v2 proc =
     (\<exists>app \<in> set unauthorizedApps_v2. toLowerCase (name proc) = toLowerCase (app2_name app))"

text \<open>The browser processes of a snapshot, each by the key under which it is counted; the
  instance count of a browser \<open>k\<close> is the number of occurrences of \<open>k\<close> in that list.\<close>

definition browserKeys :: "process list \<Rightarrow> string list" where
  "browserKeys ps =
     map (\<lambda>p. toLowerCase (name p)) (filter (\<lambda>p. isBrowserName (toLowerCase (name p))) ps)"

definition browserKeys_v2 :: "process list \<Rightarrow> string list" where
  "browserKeys_v2 ps =
     map (\<lambda>p. toLowerCase (name p)) (filter (\<lambda>p. isBrowserName_v2 (toLowerCase (name p))) ps)"

text \<open>The categories that are no key of \<open>processPatterns\<close>, and the processes that raise an
  unauthorized finding of such a category.\<close>

definition uncountedCategories :: "category set" where
  "uncountedCategories =
     {Ai_cheating, Remote_access, Recording, Virtualization, Browser, Emulation, Monitoring,
      System}"

definition raisesUncounted :: "bool \<Rightarrow> process \<Rightarrow> bool" where
  "raisesUncounted isDev proc =
     (\<not> isServerProcess isDev proc \<and>
      (case findUnauthorizedApp isDev proc of
         None \<Rightarrow> False
       | Some app \<Rightarrow> app_category app \<in> uncountedCategories))"

text \<open>The counters of \<open>processPatterns\<close> agree with the two lists of findings.\<close>

definition countersAgree :: "scan \<Rightarrow> bool" where
  "countersAgree st =
     (pp_cheating (processPatterns st) =
        length (filter (\<lambda>f. u_category f = Cheating) (unauthorized st)) \<and>
      pp_development (processPatterns st) =
        length (filter (\<lambda>f. u_category f = Development) (unauthorized st)) \<and>
      pp_communication (processPatterns st) =
        length (filter (\<lambda>f. u_category f = Communication) (unauthorized st)) \<and>
      pp_suspicious (processPatterns st) = length (suspicious st))"

section \<open>Properties\<close>

subsection \<open>Behavioral and biometric analyzers\<close>

lemma riskScore_tabSwitchRule:
  "riskScore (tabSwitchRule b a) = riskScore a + (if tabSwitches b > 5 then tabSwitches b * 2 else 0)"
  by (simp add: tabSwitchRule_def)

lemma riskScore_rightClickRule:
  "riskScore (rightClickRule b a) = riskScore a + (if rightClicks b > 3 then rightClicks b * 3 else 0)"
  by (simp add: rightClickRule_def)

lemma riskScore_idleTimeRule:
  "riskScore (idleTimeRule b a) = riskScore a + (if idleTime b > 60000 then 10 else 0)"
  by (simp add: idleTimeRule_def)

lemma riskScore_keystrokeRule:
  "riskScore (keystrokeRule b a) = riskScore a + (if keystrokes b > 500 then 15 else 0)"
  by (simp add: keystrokeRule_def Let_def)

lemma riskScore_behaviorRecommendations:
  "riskScore (behaviorRecommendations b a) = riskScore a"
  by (simp add: behaviorRecommendations_def Let_def)

lemma anomalies_behaviorRecommendations:
  "anomalies (behaviorRecommendations b a) = anomalies a"
  by (simp add: behaviorRecommendations_def Let_def)

lemma tab_anomalies_rightClickRule:
  "filter (\<lambda>x. an_type x = EXCESSIVE_TAB_SWITCHING) (anomalies (rightClickRule b a)) =
   filter (\<lambda>x. an_type x = EXCESSIVE_TAB_SWITCHING) (anomalies a)"
  by (simp add: rightClickRule_def)

lemma tab_anomalies_idleTimeRule:
  "filter (\<lambda>x. an_type x = EXCESSIVE_TAB_SWITCHING) (anomalies (idleTimeRule b a)) =
   filter (\<lambda>x. an_type x = EXCESSIVE_TAB_SWITCHING) (anomalies a)"
  by (simp add: idleTimeRule_def)

lemma tab_anomalies_keystrokeRule:
  "filter (\<lambda>x. an_type x = EXCESSIVE_TAB_SWITCHING) (anomalies (keystrokeRule b a)) =
   filter (\<lambda>x. an_type x = EXCESSIVE_TAB_SWITCHING) (anomalies a)"
  by (simp add: keystrokeRule_def Let_def)

lemma behavior_riskScore:
  "riskScore (analyzeBehaviorMetrics (JsObject b) sid) =
     (if tabSwitches b > 5 then tabSwitches b * 2 else 0)
   + (if rightClicks b > 3 then rightClicks b * 3 else 0)
   + (if idleTime b > 60000 then 10 else 0)
   + (if keystrokes b > 500 then 15 else 0)"
  by (simp add: analyzeBehaviorMetrics_def riskScore_behaviorRecommendations
      riskScore_keystrokeRule riskScore_idleTimeRule riskScore_rightClickRule
      riskScore_tabSwitchRule)

lemma behavior_tab_anomalies:
  "filter (\<lambda>x. an_type x = EXCESSIVE_TAB_SWITCHING)
     (anomalies (analyzeBehaviorMetrics (JsObject b) sid)) =
   (if tabSwitches b > 5
    then [\<lparr>an_type = EXCESSIVE_TAB_SWITCHING,
           an_severity = (if tabSwitches b > 10 then HIGH else MEDIUM),
           an_confidence = 0.9\<rparr>]
    else [])"
  by (simp add: analyzeBehaviorMetrics_def anomalies_behaviorRecommendations
      tab_anomalies_keystrokeRule tab_anomalies_idleTimeRule tab_anomalies_rightClickRule
      tabSwitchRule_def)

text \<open>
  Claim C8. Both analyzers return a result for an absent input, \<open>undefined\<close> or \<open>null\<close>:
  risk score 0 and no anomaly. (Neither function has a throwing path: every field read is
  a comparison or an arithmetic operation.)
\<close>

theorem analyzers_absent_input:
  "riskScore (analyzeBehaviorMetrics JsUndefined sid) = 0 \<and>
   anomalies (analyzeBehaviorMetrics JsUndefined sid) = [] \<and>
   riskScore (analyzeBehaviorMetrics JsNull sid) = 0 \<and>
   anomalies (analyzeBehaviorMetrics JsNull sid) = [] \<and>
   riskScore (analyzeBiometricData JsUndefined) = 0 \<and>
   anomalies (analyzeBiometricData JsUndefined) = [] \<and>
   riskScore (analyzeBiometricData JsNull) = 0 \<and>
   anomalies (analyzeBiometricData JsNull) = []"
  by (simp add: analyzeBehaviorMetrics_def analyzeBiometricData_def)

text \<open>
  Claim C9. When \<open>tabSwitches > 5\<close> the behavioral analyzer reports exactly one
  \<open>EXCESSIVE_TAB_SWITCHING\<close> anomaly, of confidence 0.9 and of severity \<open>HIGH\<close> when
  \<open>tabSwitches > 10\<close>, \<open>MEDIUM\<close> otherwise, and the risk score is \<open>tabSwitches * 2\<close> more
  than the score of the same metrics with no tab switch. With \<open>tabSwitches = 12\<close> and the
  other metrics zero the only anomaly is that one, of severity \<open>HIGH\<close>, and the score is 24.
\<close>

theorem excessive_tab_switching:
  "tabSwitches b > 5 \<longrightarrow>
     filter (\<lambda>x. an_type x = EXCESSIVE_TAB_SWITCHING)
        (anomalies (analyzeBehaviorMetrics (JsObject b) sid)) =
       [\<lparr>an_type = EXCESSIVE_TAB_SWITCHING,
         an_severity = (if tabSwitches b > 10 then HIGH else MEDIUM),
         an_confidence = 0.9\<rparr>] \<and>
     riskScore (analyzeBehaviorMetrics (JsObject b) sid) =
       tabSwitches b * 2 +
       riskScore (analyzeBehaviorMetrics (JsObject (b\<lparr>tabSwitches := 0\<rparr>)) sid)"
  by (simp add: behavior_riskScore behavior_tab_anomalies)

theorem excessive_tab_switching_witness:
  "tabSwitches \<lparr>tabSwitches = 12, rightClicks = 0, idleTime = 0, keystrokes = 0\<rparr> > 5 \<and>
   anomalies (analyzeBehaviorMetrics
       (JsObject \<lparr>tabSwitches = 12, rightClicks = 0, idleTime = 0, keystrokes = 0\<rparr>) None) =
     [\<lparr>an_type = EXCESSIVE_TAB_SWITCHING, an_severity = HIGH, an_confidence = 0.9\<rparr>] \<and>
   riskScore (analyzeBehaviorMetrics
       (JsObject \<lparr>tabSwitches = 12, rightClicks = 0, idleTime = 0, keystrokes = 0\<rparr>) None) = 24"
proof -
  let ?b = "\<lparr>tabSwitches = 12, rightClicks = 0, idleTime = 0, keystrokes = 0\<rparr>"
  have others: "anomalies (analyzeBehaviorMetrics (JsObject ?b) None) =
      filter (\<lambda>x. an_type x = EXCESSIVE_TAB_SWITCHING)
        (anomalies (analyzeBehaviorMetrics (JsObject ?b) None))"
    by (simp add: analyzeBehaviorMetrics_def behaviorRecommendations_def keystrokeRule_def
        idleTimeRule_def rightClickRule_def tabSwitchRule_def)
  have rest: "riskScore (analyzeBehaviorMetrics (JsObject (?b\<lparr>tabSwitches := 0\<rparr>)) None) = 0"
    by (simp add: behavior_riskScore)
  from excessive_tab_switching [of ?b None] others rest show ?thesis
    by simp
qed

text \<open>
  Claim C2. For \<open>{faceDetected: false, attentionScore: 40}\<close> the biometric analyzer
  returns \<open>FACE_NOT_DETECTED\<close> and \<open>LOW_ATTENTION_SCORE\<close> (severity \<open>MEDIUM\<close>, confidence
  0.8) with risk score 50: the test \<open>attentionScore < 70\<close> comes first and holds for every
  score below 50, so the \<open>CRITICAL_ATTENTION_SCORE\<close> branch is never taken, whatever the
  input.
\<close>

theorem critical_attention_unreachable:
  "analyzeBiometricData (JsObject \<lparr>faceDetected = False, attentionScore = 40\<rparr>) =
     \<lparr>riskScore = 50,
      anomalies =
        [\<lparr>an_type = FACE_NOT_DETECTED, an_severity = HIGH, an_confidence = 0.95\<rparr>,
         \<lparr>an_type = LOW_ATTENTION_SCORE, an_severity = MEDIUM, an_confidence = 0.8\<rparr>],
      attentionLevel = LOW_ATTENTION\<rparr> \<and>
   (\<forall>d. CRITICAL_ATTENTION_SCORE \<notin> an_type ` set (anomalies (analyzeBiometricData d)))"
proof
  show "analyzeBiometricData (JsObject \<lparr>faceDetected = False, attentionScore = 40\<rparr>) =
     \<lparr>riskScore = 50,
      anomalies =
        [\<lparr>an_type = FACE_NOT_DETECTED, an_severity = HIGH, an_confidence = 0.95\<rparr>,
         \<lparr>an_type = LOW_ATTENTION_SCORE, an_severity = MEDIUM, an_confidence = 0.8\<rparr>],
      attentionLevel = LOW_ATTENTION\<rparr>"
    by (simp add: analyzeBiometricData_def attentionRule_def faceRule_def)
  show "\<forall>d. CRITICAL_ATTENTION_SCORE \<notin> an_type ` set (anomalies (analyzeBiometricData d))"
  proof
    fix d
    show "CRITICAL_ATTENTION_SCORE \<notin> an_type ` set (anomalies (analyzeBiometricData d))"
      by (cases d)
        (auto simp: analyzeBiometricData_def attentionRule_def faceRule_def Let_def
           split: if_splits)
  qed
qed

subsection \<open>String primitives\<close>

lemma startsWith_prefix: "startsWith s t \<longleftrightarrow> prefix t s"
  by (induction s t rule: startsWith.induct) auto

lemma includes_str_sublist: "includes_str s t \<longleftrightarrow> sublist t s"
  by (induction s) (auto simp: startsWith_prefix sublist_Cons_right)

subsection \<open>Network threat scanner\<close>

lemma scanDomain_connections:
  "suspiciousConnections (scanDomain cs r d) =
     suspiciousConnections r @ (if list_ex (connectionNames d) cs then [d] else [])"
  by (simp add: scanDomain_def Let_def)

lemma scanDomain_stats:
  "connectionStats (scanDomain cs r d) =
     (connectionStats r)\<lparr>suspicious_count := suspicious_count (connectionStats r) +
        (if list_ex (connectionNames d) cs then 1 else 0)\<rparr>"
  by (simp add: scanDomain_def Let_def)

lemma scanDomain_error: "net_error (scanDomain cs r d) = net_error r"
  by (simp add: scanDomain_def Let_def)

lemma foldl_scanDomain_connections:
  "suspiciousConnections (foldl (scanDomain cs) r ds) =
     suspiciousConnections r @ filter (\<lambda>d. list_ex (connectionNames d) cs) ds"
  by (induction ds arbitrary: r) (simp_all add: scanDomain_connections)

lemma foldl_scanDomain_stats:
  "connectionStats (foldl (scanDomain cs) r ds) =
     (connectionStats r)\<lparr>suspicious_count := suspicious_count (connectionStats r) +
        length (filter (\<lambda>d. list_ex (connectionNames d) cs) ds)\<rparr>"
  by (induction ds arbitrary: r) (simp_all add: scanDomain_stats)

lemma foldl_scanDomain_error: "net_error (foldl (scanDomain cs) r ds) = net_error r"
  by (induction ds arbitrary: r) (simp_all add: scanDomain_error)

lemma connectionNames_iff:
  "connectionNames d conn \<longleftrightarrow>
     ipMatch conn \<and> sublist (toLowerCase (dom_domain d)) (toLowerCase conn)"
  by (simp add: connectionNames_def includes_str_sublist)

lemma isExternal_eq:
  "isExternal = (\<lambda>conn. \<not> sublist ''127.0.0.1'' conn \<and> \<not> sublist ''::1'' conn \<and>
                    \<not> sublist ''localhost'' conn)"
  by (rule ext) (simp add: isExternal_def includes_str_sublist)

lemma foldl_scanDomain_v2:
  "foldl (scanDomain_v2 cs) acc ds =
     acc @ filter (\<lambda>d. list_ex (\<lambda>conn. includes_str conn d) cs) ds"
  by (induction ds arbitrary: acc) (simp_all add: scanDomain_v2_def)

subsection \<open>The loop over the processes\<close>

lemma catalog_names_nonempty:
  "app \<in> set (unauthorizedApps isDev) \<Longrightarrow> app_name app \<noteq> []"
  by (auto simp: unauthorizedApps_def)

lemma catalog_v2_names_nonempty:
  "app \<in> set unauthorizedApps_v2 \<Longrightarrow> app2_name app \<noteq> []"
  by (auto simp: unauthorizedApps_v2_def)

lemma findUnauthorizedApp_None: "findUnauthorizedApp isDev p = None \<longleftrightarrow> \<not> catalogMatch isDev p"
proof -
  have "name p = [] \<Longrightarrow> \<not> catalogMatch isDev p"
    using catalog_names_nonempty [of _ isDev]
    by (auto simp: catalogMatch_def toLowerCase_def)
  then show ?thesis
    by (auto simp: findUnauthorizedApp_def find_None_iff catalogMatch_def)
qed

lemma findUnauthorizedApp_v2_None: "findUnauthorizedApp_v2 p = None \<longleftrightarrow> \<not> catalogMatch_v2 p"
proof -
  have "name p = [] \<Longrightarrow> \<not> catalogMatch_v2 p"
    using catalog_v2_names_nonempty
    by (auto simp: catalogMatch_v2_def toLowerCase_def)
  then show ?thesis
    by (auto simp: findUnauthorizedApp_v2_def find_None_iff catalogMatch_v2_def)
qed

lemma findUnauthorizedApp_Some_name:
  "findUnauthorizedApp isDev p = Some app \<Longrightarrow> name p \<noteq> []"
  by (auto simp: findUnauthorizedApp_def find_Some_iff)

lemma findUnauthorizedApp_v2_Some_name:
  "findUnauthorizedApp_v2 p = Some app \<Longrightarrow> name p \<noteq> []"
  by (auto simp: findUnauthorizedApp_v2_def find_Some_iff)

text \<open>The four components of the state after one step of the loop.\<close>

lemma unauthorized_scanProcess:
  "unauthorized (scanProcess isDev st p) =
     (if isServerProcess isDev p then unauthorized st
      else case findUnauthorizedApp isDev p of
             None \<Rightarrow> unauthorized st
           | Some app \<Rightarrow>
               unauthorized st @
                 [\<lparr>u_name = (if name p = [] then ''unknown'' else name p),
                   u_pid = pid p,
                   u_cmd = (if cmd p = [] then ''No command-line details available'' else cmd p),
                   u_severity = threatLevel app p,
                   u_category = app_category app\<rparr>])"
  by (simp add: scanProcess_def Let_def split: option.split)

lemma suspicious_scanProcess:
  "suspicious (scanProcess isDev st p) =
     (if isServerProcess isDev p \<or> findUnauthorizedApp isDev p \<noteq> None \<or> cmd p = []
      then suspicious st
      else case findSuspiciousPattern p of
             None \<Rightarrow> suspicious st
           | Some pattern \<Rightarrow>
               suspicious st @
                 [\<lparr>s_name = (if name p = [] then ''unknown'' else name p),
                   s_pid = pid p, s_cmd = cmd p, s_severity = pat_severity pattern\<rparr>])"
  by (simp add: scanProcess_def Let_def split: option.split)

lemma processPatterns_scanProcess:
  "processPatterns (scanProcess isDev st p) =
     (if isServerProcess isDev p then processPatterns st
      else case findUnauthorizedApp isDev p of
             Some app \<Rightarrow> countCategory (app_category app) (processPatterns st)
           | None \<Rightarrow>
               if cmd p \<noteq> [] \<and> findSuspiciousPattern p \<noteq> None
               then (processPatterns st)
                      \<lparr>pp_suspicious := pp_suspicious (processPatterns st) + 1\<rparr>
               else processPatterns st)"
  by (simp add: scanProcess_def Let_def split: option.split)

lemma browserCounts_scanProcess_cases:
  "browserCounts (scanProcess isDev st p) =
     (if isServerProcess isDev p then browserCounts st
      else if name p \<noteq> [] \<and> isBrowserName (toLowerCase (name p))
      then bumpCount (browserCounts st) (toLowerCase (name p))
      else browserCounts st)"
  by (simp add: scanProcess_def Let_def split: option.split)

lemma unauthorized_v2_scanProcess:
  "unauthorized_v2 (scanProcess_v2 st p) =
     (case findUnauthorizedApp_v2 p of
        None \<Rightarrow> unauthorized_v2 st
      | Some app \<Rightarrow>
          unauthorized_v2 st @
            [\<lparr>u2_name = (if name p = [] then ''unknown'' else name p),
              u2_pid = pid p,
              u2_cmd = (if cmd p = [] then ''N/A'' else cmd p),
              u2_severity = threatLevel_v2 app p\<rparr>])"
  by (simp add: scanProcess_v2_def Let_def split: option.split)

lemma browserCounts_v2_scanProcess_cases:
  "browserCounts_v2 (scanProcess_v2 st p) =
     (if name p \<noteq> [] \<and> isBrowserName_v2 (toLowerCase (name p))
      then bumpCount (browserCounts_v2 st) (toLowerCase (name p))
      else browserCounts_v2 st)"
  by (simp add: scanProcess_v2_def Let_def split: option.split)

text \<open>Each step appends one finding for a process that matches the catalog and is not
  the server's own, and nothing otherwise.\<close>

lemma names_scanProcess:
  "map (\<lambda>f. (u_name f, u_pid f)) (unauthorized (scanProcess isDev st p)) =
   map (\<lambda>f. (u_name f, u_pid f)) (unauthorized st) @
     (if catalogMatch isDev p \<and> \<not> isServerProcess isDev p then [(name p, pid p)] else [])"
proof (cases "findUnauthorizedApp isDev p")
  case None
  then show ?thesis
    using findUnauthorizedApp_None [of isDev p] by (simp add: unauthorized_scanProcess)
next
  case (Some app)
  then show ?thesis
    using findUnauthorizedApp_None [of isDev p] findUnauthorizedApp_Some_name [of isDev p app]
    by (simp add: unauthorized_scanProcess)
qed

lemma names_foldl_scanProcess:
  "map (\<lambda>f. (u_name f, u_pid f)) (unauthorized (foldl (scanProcess isDev) st ps)) =
   map (\<lambda>f. (u_name f, u_pid f)) (unauthorized st) @
     map (\<lambda>p. (name p, pid p))
       (filter (\<lambda>p. catalogMatch isDev p \<and> \<not> isServerProcess isDev p) ps)"
  by (induction ps arbitrary: st) (simp_all add: names_scanProcess)

lemma names_scanProcess_v2:
  "map (\<lambda>f. (u2_name f, u2_pid f)) (unauthorized_v2 (scanProcess_v2 st p)) =
   map (\<lambda>f. (u2_name f, u2_pid f)) (unauthorized_v2 st) @
     (if catalogMatch_v2 p then [(name p, pid p)] else [])"
proof (cases "findUnauthorizedApp_v2 p")
  case None
  then show ?thesis
    using findUnauthorizedApp_v2_None [of p] by (simp add: unauthorized_v2_scanProcess)
next
  case (Some app)
  then show ?thesis
    using findUnauthorizedApp_v2_None [of p] findUnauthorizedApp_v2_Some_name [of p app]
    by (simp add: unauthorized_v2_scanProcess)
qed

lemma names_foldl_scanProcess_v2:
  "map (\<lambda>f. (u2_name f, u2_pid f)) (unauthorized_v2 (foldl scanProcess_v2 st ps)) =
   map (\<lambda>f. (u2_name f, u2_pid f)) (unauthorized_v2 st) @
     map (\<lambda>p. (name p, pid p)) (filter catalogMatch_v2 ps)"
  by (induction ps arbitrary: st) (simp_all add: names_scanProcess_v2)

text \<open>The counters of \<open>processPatterns\<close> follow the lists of findings.\<close>

lemma countCategory_fields:
  "pp_cheating (countCategory c pp) = pp_cheating pp + (if c = Cheating then 1 else 0)"
  "pp_development (countCategory c pp) = pp_development pp + (if c = Development then 1 else 0)"
  "pp_communication (countCategory c pp) =
     pp_communication pp + (if c = Communication then 1 else 0)"
  "pp_suspicious (countCategory c pp) = pp_suspicious pp"
  by (cases c; simp)+

lemma countersAgree_scanProcess:
  "countersAgree st \<Longrightarrow> countersAgree (scanProcess isDev st p)"
  by (cases "findUnauthorizedApp isDev p"; cases "findSuspiciousPattern p")
    (simp_all add: countersAgree_def unauthorized_scanProcess suspicious_scanProcess
      processPatterns_scanProcess countCategory_fields)

lemma countersAgree_foldl:
  "countersAgree st \<Longrightarrow> countersAgree (foldl (scanProcess isDev) st ps)"
  by (induction ps arbitrary: st) (simp_all add: countersAgree_scanProcess)

lemma countersAgree_emptyScan: "countersAgree emptyScan"
  by (simp add: countersAgree_def emptyScan_def)

lemma analyzeProcesses_Inr:
  "analyzeProcesses isDev (Inr ps) netstat =
     Inr \<lparr>unauthorized = unauthorized (foldl (scanProcess isDev) emptyScan ps),
          suspicious = suspicious (foldl (scanProcess isDev) emptyScan ps),
          browserInstances =
            foldl (browserEntry isDev) [] (browserCounts (foldl (scanProcess isDev) emptyScan ps)),
          networkThreats = checkNetworkConnections netstat,
          processCount = length ps,
          ai_riskScore =
            int (pp_cheating (processPatterns (foldl (scanProcess isDev) emptyScan ps)) * 40 +
                 pp_development (processPatterns (foldl (scanProcess isDev) emptyScan ps)) * 15 +
                 pp_communication (processPatterns (foldl (scanProcess isDev) emptyScan ps)) * 10 +
                 pp_suspicious (processPatterns (foldl (scanProcess isDev) emptyScan ps)) * 25 +
                 length (suspiciousConnections (checkNetworkConnections netstat)) * 20)\<rparr>"
  by (simp add: analyzeProcesses_def Let_def)

lemma analyzeProcesses_v2_Inr:
  "analyzeProcesses_v2 (Inr ps) netstat =
     Inr \<lparr>unauthorized_v2 = unauthorized_v2 (foldl scanProcess_v2 emptyScan_v2 ps),
          suspicious_v2 = suspicious_v2 (foldl scanProcess_v2 emptyScan_v2 ps),
          browserInstances_v2 =
            foldl browserEntry_v2 [] (browserCounts_v2 (foldl scanProcess_v2 emptyScan_v2 ps)),
          networkThreats_v2 = checkNetworkConnections_v2 netstat,
          processCount_v2 = length ps\<rparr>"
  by (simp add: analyzeProcesses_v2_def Let_def)

subsection \<open>The violations of a report\<close>

lemma violations_pushViolation:
  "violations (pushViolation t sev r) = violations r @ [\<lparr>v_type = t, v_severity = sev\<rparr>]"
  by (simp add: pushViolation_def)

lemma foldl_addUnauthorized:
  "violations (foldl addUnauthorized r fs) =
     violations r @ map (\<lambda>f. \<lparr>v_type = UNAUTHORIZED_APPLICATION, v_severity = u_severity f\<rparr>) fs"
  by (induction fs arbitrary: r)
    (simp_all add: addUnauthorized_def Let_def violations_pushViolation)

lemma foldl_addSuspicious:
  "violations (foldl addSuspicious r fs) =
     violations r @ map (\<lambda>f. \<lparr>v_type = SUSPICIOUS_ACTIVITY, v_severity = s_severity f\<rparr>) fs"
  by (induction fs arbitrary: r)
    (simp_all add: addSuspicious_def Let_def violations_pushViolation)

lemma foldl_addNetworkThreat:
  "violations (foldl addNetworkThreat r ds) =
     violations r @
       map (\<lambda>d. \<lparr>v_type = SUSPICIOUS_NETWORK_ACTIVITY, v_severity = dom_severity d\<rparr>) ds"
  by (induction ds arbitrary: r)
    (simp_all add: addNetworkThreat_def Let_def violations_pushViolation)

lemma foldl_addBrowser:
  "violations (foldl addBrowser r bs) =
     violations r @
       map (\<lambda>b. \<lparr>v_type = SUSPICIOUS_BROWSER_ACTIVITY, v_severity = threat_level b\<rparr>) bs"
  by (induction bs arbitrary: r)
    (simp_all add: addBrowser_def Let_def violations_pushViolation)

lemma foldl_addAnomaly:
  "violations (foldl addAnomaly r as) =
     violations r @ map (\<lambda>a. \<lparr>v_type = an_type a, v_severity = an_severity a\<rparr>) as"
  by (induction as arbitrary: r) (simp_all add: addAnomaly_def violations_pushViolation)

lemma violations_addBehavior:
  "violations (addBehavior b sid r) =
     violations r @ map (\<lambda>a. \<lparr>v_type = an_type a, v_severity = an_severity a\<rparr>)
       (anomalies (analyzeBehaviorMetrics b sid))"
  by (cases b) (simp_all add: addBehavior_def Let_def foldl_addAnomaly analyzeBehaviorMetrics_def)

lemma violations_addBiometric:
  "violations (addBiometric m r) =
     violations r @ map (\<lambda>a. \<lparr>v_type = an_type a, v_severity = an_severity a\<rparr>)
       (anomalies (analyzeBiometricData m))"
  by (cases m) (simp_all add: addBiometric_def Let_def foldl_addAnomaly analyzeBiometricData_def)

lemma violations_generateViolationReport:
  "violations (generateViolationReport r b m sid) =
     map (\<lambda>f. \<lparr>v_type = UNAUTHORIZED_APPLICATION, v_severity = u_severity f\<rparr>) (unauthorized r) @
     map (\<lambda>f. \<lparr>v_type = SUSPICIOUS_ACTIVITY, v_severity = s_severity f\<rparr>) (suspicious r) @
     map (\<lambda>d. \<lparr>v_type = SUSPICIOUS_NETWORK_ACTIVITY, v_severity = dom_severity d\<rparr>)
       (suspiciousConnections (networkThreats r)) @
     map (\<lambda>b. \<lparr>v_type = SUSPICIOUS_BROWSER_ACTIVITY, v_severity = threat_level b\<rparr>)
       (browserInstances r) @
     map (\<lambda>a. \<lparr>v_type = an_type a, v_severity = an_severity a\<rparr>)
       (anomalies (analyzeBehaviorMetrics b sid)) @
     map (\<lambda>a. \<lparr>v_type = an_type a, v_severity = an_severity a\<rparr>)
       (anomalies (analyzeBiometricData m))"
  by (simp add: generateViolationReport_def Let_def scoreAndRecommend_def
      violations_addBiometric violations_addBehavior foldl_addBrowser foldl_addNetworkThreat
      foldl_addSuspicious foldl_addUnauthorized emptyReport_def)

lemma violations_v2_pushViolation:
  "violations_v2 (pushViolation_v2 t sev r) = violations_v2 r @ [\<lparr>v_type = t, v_severity = sev\<rparr>]"
  by (simp add: pushViolation_v2_def)

lemma foldl_addUnauthorized_v2:
  "violations_v2 (foldl addUnauthorized_v2 r fs) =
     violations_v2 r @
       map (\<lambda>f. \<lparr>v_type = UNAUTHORIZED_APPLICATION, v_severity = u2_severity f\<rparr>) fs"
  by (induction fs arbitrary: r)
    (simp_all add: addUnauthorized_v2_def Let_def violations_v2_pushViolation)

lemma foldl_addSuspicious_v2:
  "violations_v2 (foldl addSuspicious_v2 r fs) =
     violations_v2 r @ map (\<lambda>f. \<lparr>v_type = SUSPICIOUS_ACTIVITY, v_severity = MEDIUM\<rparr>) fs"
  by (induction fs arbitrary: r)
    (simp_all add: addSuspicious_v2_def violations_v2_pushViolation)

lemma foldl_addNetworkThreat_v2:
  "violations_v2 (foldl addNetworkThreat_v2 r ds) =
     violations_v2 r @ map (\<lambda>d. \<lparr>v_type = SUSPICIOUS_NETWORK_ACTIVITY, v_severity = HIGH\<rparr>) ds"
  by (induction ds arbitrary: r)
    (simp_all add: addNetworkThreat_v2_def Let_def violations_v2_pushViolation)

lemma foldl_addBrowser_v2:
  "violations_v2 (foldl addBrowser_v2 r bs) =
     violations_v2 r @
       map (\<lambda>b. \<lparr>v_type = SUSPICIOUS_BROWSER_ACTIVITY, v_severity = threat_level b\<rparr>) bs"
  by (induction bs arbitrary: r) (simp_all add: addBrowser_v2_def violations_v2_pushViolation)

lemma violations_generateViolationReport_v2:
  "violations_v2 (generateViolationReport_v2 r) =
     map (\<lambda>f. \<lparr>v_type = UNAUTHORIZED_APPLICATION, v_severity = u2_severity f\<rparr>)
       (unauthorized_v2 r) @
     map (\<lambda>f. \<lparr>v_type = SUSPICIOUS_ACTIVITY, v_severity = MEDIUM\<rparr>) (suspicious_v2 r) @
     map (\<lambda>d. \<lparr>v_type = SUSPICIOUS_NETWORK_ACTIVITY, v_severity = HIGH\<rparr>)
       (networkThreats_v2 r) @
     map (\<lambda>b. \<lparr>v_type = SUSPICIOUS_BROWSER_ACTIVITY, v_severity = threat_level b\<rparr>)
       (browserInstances_v2 r)"
  by (simp add: generateViolationReport_v2_def Let_def foldl_addBrowser_v2
      foldl_addNetworkThreat_v2 foldl_addSuspicious_v2 foldl_addUnauthorized_v2)

text \<open>The anomalies of the analyzers carry the analyzers' own types.\<close>

lemma behavior_anomaly_types:
  "an_type ` set (anomalies (analyzeBehaviorMetrics b sid)) \<subseteq>
     {EXCESSIVE_TAB_SWITCHING, EXCESSIVE_RIGHT_CLICKS, EXTENDED_IDLE_TIME,
      UNUSUAL_KEYSTROKE_PATTERN}"
  by (cases b)
    (auto simp: analyzeBehaviorMetrics_def behaviorRecommendations_def keystrokeRule_def
       idleTimeRule_def rightClickRule_def tabSwitchRule_def Let_def split: if_splits)

lemma biometric_anomaly_types:
  "an_type ` set (anomalies (analyzeBiometricData m)) \<subseteq>
     {FACE_NOT_DETECTED, LOW_ATTENTION_SCORE, CRITICAL_ATTENTION_SCORE}"
  by (cases m)
    (auto simp: analyzeBiometricData_def attentionRule_def faceRule_def Let_def split: if_splits)

lemma filter_other_type:
  "t \<notin> an_type ` set as \<Longrightarrow>
   filter (\<lambda>v. v_type v = t) (map (\<lambda>a. \<lparr>v_type = an_type a, v_severity = an_severity a\<rparr>) as) = []"
  by (induction as) auto

lemma no_process_anomalies:
  "t \<in> {UNAUTHORIZED_APPLICATION, SUSPICIOUS_ACTIVITY, SUSPICIOUS_NETWORK_ACTIVITY,
         SUSPICIOUS_BROWSER_ACTIVITY} \<Longrightarrow>
   filter (\<lambda>v. v_type v = t)
     (map (\<lambda>a. \<lparr>v_type = an_type a, v_severity = an_severity a\<rparr>)
        (anomalies (analyzeBehaviorMetrics b sid))) = [] \<and>
   filter (\<lambda>v. v_type v = t)
     (map (\<lambda>a. \<lparr>v_type = an_type a, v_severity = an_severity a\<rparr>)
        (anomalies (analyzeBiometricData m))) = []"
  using behavior_anomaly_types [of b sid] biometric_anomaly_types [of m]
  by (intro conjI filter_other_type) auto

subsection \<open>The risk score of a report\<close>

lemma aiInsights_pushViolation: "aiInsights (pushViolation t sev r) = aiInsights r"
  by (simp add: pushViolation_def)

lemma aiInsights_foldl_addUnauthorized:
  "aiInsights (foldl addUnauthorized r fs) = aiInsights r"
  by (induction fs arbitrary: r) (simp_all add: addUnauthorized_def Let_def aiInsights_pushViolation)

lemma aiInsights_foldl_addSuspicious:
  "aiInsights (foldl addSuspicious r fs) = aiInsights r"
  by (induction fs arbitrary: r) (simp_all add: addSuspicious_def Let_def aiInsights_pushViolation)

lemma aiInsights_foldl_addNetworkThreat:
  "aiInsights (foldl addNetworkThreat r ds) = aiInsights r"
  by (induction ds arbitrary: r)
    (simp_all add: addNetworkThreat_def Let_def aiInsights_pushViolation)

lemma aiInsights_foldl_addBrowser:
  "aiInsights (foldl addBrowser r bs) = aiInsights r"
  by (induction bs arbitrary: r) (simp_all add: addBrowser_def Let_def aiInsights_pushViolation)

lemma aiInsights_foldl_addAnomaly:
  "aiInsights (foldl addAnomaly r as) = aiInsights r"
  by (induction as arbitrary: r) (simp_all add: addAnomaly_def aiInsights_pushViolation)

lemma aiInsights_addBehavior:
  "aiInsights (addBehavior b sid r) =
     (case b of
        JsObject x \<Rightarrow> (aiInsights r)\<lparr>behaviorAnalysis := Some (analyzeBehaviorMetrics b sid)\<rparr>
      | JsNull \<Rightarrow> aiInsights r
      | JsUndefined \<Rightarrow> aiInsights r)"
  by (cases b) (simp_all add: addBehavior_def Let_def aiInsights_foldl_addAnomaly)

lemma aiInsights_addBiometric:
  "aiInsights (addBiometric m r) =
     (case m of
        JsObject x \<Rightarrow> (aiInsights r)\<lparr>biometricAnalysis := Some (analyzeBiometricData m)\<rparr>
      | JsNull \<Rightarrow> aiInsights r
      | JsUndefined \<Rightarrow> aiInsights r)"
  by (cases m) (simp_all add: addBiometric_def Let_def aiInsights_foldl_addAnomaly)

lemma overallRiskScore_generateViolationReport:
  "overallRiskScore (aiInsights (generateViolationReport r b m sid)) =
     ai_riskScore r + riskScore (analyzeBehaviorMetrics b sid) + riskScore (analyzeBiometricData m)"
proof -
  have absent:
    "riskScore (analyzeBehaviorMetrics JsNull sid) = 0"
    "riskScore (analyzeBehaviorMetrics JsUndefined sid) = 0"
    "riskScore (analyzeBiometricData JsNull) = 0"
    "riskScore (analyzeBiometricData JsUndefined) = 0"
    by (simp_all add: analyzeBehaviorMetrics_def analyzeBiometricData_def)
  show ?thesis
    by (cases b; cases m)
      (simp_all add: generateViolationReport_def Let_def scoreAndRecommend_def riskScoreOr0_def
        aiInsights_addBiometric aiInsights_addBehavior aiInsights_foldl_addBrowser
        aiInsights_foldl_addNetworkThreat aiInsights_foldl_addSuspicious
        aiInsights_foldl_addUnauthorized emptyReport_def absent)
qed

subsection \<open>Browser instance counts\<close>

lemma map_of_bumpCount:
  "map_of (bumpCount kvs k) k' =
     (if k' = k then Some (case map_of kvs k of None \<Rightarrow> 1 | Some n \<Rightarrow> n + 1)
      else map_of kvs k')"
  by (induction kvs k rule: bumpCount.induct) auto

lemma keys_bumpCount: "fst ` set (bumpCount kvs k) = insert k (fst ` set kvs)"
  by (induction kvs k rule: bumpCount.induct) auto

lemma distinct_bumpCount:
  "distinct (map fst kvs) \<Longrightarrow> distinct (map fst (bumpCount kvs k))"
proof (induction kvs k rule: bumpCount.induct)
  case (1 k)
  then show ?case by simp
next
  case (2 k' n kvs k)
  then show ?case
    using keys_bumpCount [of kvs k] by (auto simp: image_iff)
qed

lemma distinct_foldl_bumpCount:
  "distinct (map fst kvs) \<Longrightarrow> distinct (map fst (foldl bumpCount kvs ks))"
  by (induction ks arbitrary: kvs) (simp_all add: distinct_bumpCount)

lemma map_of_foldl_bumpCount:
  "map_of (foldl bumpCount kvs ks) k =
     (if count_list ks k = 0 then map_of kvs k
      else Some ((case map_of kvs k of None \<Rightarrow> 0 | Some n \<Rightarrow> n) + count_list ks k))"
  by (induction ks arbitrary: kvs) (auto simp: map_of_bumpCount split: option.splits)

lemma filter_key_distinct:
  "distinct (map fst kvs) \<Longrightarrow>
   filter (\<lambda>e. fst e = k \<and> P (snd e)) kvs =
     (case map_of kvs k of None \<Rightarrow> [] | Some c \<Rightarrow> if P c then [(k, c)] else [])"
proof (induction kvs)
  case Nil
  then show ?case by simp
next
  case (Cons e kvs)
  obtain k' c' where e: "e = (k', c')" by (cases e)
  show ?case
  proof (cases "k' = k")
    case True
    with Cons.prems e have "map_of kvs k = None"
      by (simp add: map_of_eq_None_iff)
    then have "filter (\<lambda>e. fst e = k \<and> P (snd e)) kvs = []"
      using Cons by simp
    with True e show ?thesis by simp
  next
    case False
    with Cons e show ?thesis by simp
  qed
qed

lemma not_browser_names:
  "\<not> isBrowserName ''node.exe''" "\<not> isBrowserName ''node''"
  "\<not> isBrowserName_v2 []" "\<not> isBrowserName []"
  by (simp_all add: isBrowserName_def isBrowserName_v2_def)

lemma browserCounts_scanProcess:
  "browserCounts (scanProcess isDev st p) =
     (if isBrowserName (toLowerCase (name p))
      then bumpCount (browserCounts st) (toLowerCase (name p))
      else browserCounts st)"
proof -
  have "isServerProcess isDev p \<Longrightarrow> \<not> isBrowserName (toLowerCase (name p))"
    using not_browser_names by (auto simp: isServerProcess_def)
  moreover have "name p = [] \<Longrightarrow> \<not> isBrowserName (toLowerCase (name p))"
    using not_browser_names by (simp add: toLowerCase_def)
  ultimately show ?thesis
    by (auto simp: browserCounts_scanProcess_cases)
qed

lemma browserCounts_foldl_scanProcess:
  "browserCounts (foldl (scanProcess isDev) st ps) =
     foldl bumpCount (browserCounts st) (browserKeys ps)"
  by (induction ps arbitrary: st) (simp_all add: browserKeys_def browserCounts_scanProcess)

lemma browserCounts_v2_scanProcess:
  "browserCounts_v2 (scanProcess_v2 st p) =
     (if isBrowserName_v2 (toLowerCase (name p))
      then bumpCount (browserCounts_v2 st) (toLowerCase (name p))
      else browserCounts_v2 st)"
proof -
  have "name p = [] \<Longrightarrow> \<not> isBrowserName_v2 (toLowerCase (name p))"
    using not_browser_names by (simp add: toLowerCase_def)
  then show ?thesis
    by (auto simp: browserCounts_v2_scanProcess_cases)
qed

lemma browserCounts_v2_foldl_scanProcess:
  "browserCounts_v2 (foldl scanProcess_v2 st ps) =
     foldl bumpCount (browserCounts_v2 st) (browserKeys_v2 ps)"
  by (induction ps arbitrary: st) (simp_all add: browserKeys_v2_def browserCounts_v2_scanProcess)

lemma foldl_browserEntry:
  "foldl (browserEntry isDev) acc kvs =
     acc @ map (\<lambda>e. \<lparr>browser = fst e, count = snd e,
                     threat_level = (if snd e > browserThreshold isDev + 10 then HIGH else MEDIUM)\<rparr>)
             (filter (\<lambda>e. snd e > browserThreshold isDev) kvs)"
  by (induction kvs arbitrary: acc) (auto simp: browserEntry_def)

lemma foldl_browserEntry_v2:
  "foldl browserEntry_v2 acc kvs =
     acc @ map (\<lambda>e. \<lparr>browser = fst e, count = snd e,
                     threat_level = (if snd e > 5 then HIGH else MEDIUM)\<rparr>)
             (filter (\<lambda>e. snd e > 3) kvs)"
  by (induction kvs arbitrary: acc) (auto simp: browserEntry_v2_def)

lemma browser_filter:
  assumes "distinct (map fst kvs)"
  shows "filter (\<lambda>i. browser i = k)
           (map (\<lambda>e. \<lparr>browser = fst e, count = snd e, threat_level = sev (snd e)\<rparr>)
              (filter (\<lambda>e. snd e > T) kvs)) =
         (case map_of kvs k of
            None \<Rightarrow> []
          | Some c \<Rightarrow> if c > T then [\<lparr>browser = k, count = c, threat_level = sev c\<rparr>] else [])"
proof -
  have "filter (\<lambda>i. browser i = k)
           (map (\<lambda>e. \<lparr>browser = fst e, count = snd e, threat_level = sev (snd e)\<rparr>)
              (filter (\<lambda>e. snd e > T) kvs)) =
        map (\<lambda>e. \<lparr>browser = fst e, count = snd e, threat_level = sev (snd e)\<rparr>)
          (filter (\<lambda>e. fst e = k \<and> snd e > T) kvs)"
    by (simp add: filter_map comp_def conj_commute)
  also have "\<dots> = (case map_of kvs k of
            None \<Rightarrow> []
          | Some c \<Rightarrow> if c > T then [\<lparr>browser = k, count = c, threat_level = sev c\<rparr>] else [])"
    using filter_key_distinct [OF assms, of k "\<lambda>c. c > T"]
    by (simp split: option.splits)
  finally show ?thesis .
qed

lemma browserInstances_per_browser:
  "filter (\<lambda>i. browser i = k)
     (foldl (browserEntry isDev) [] (browserCounts (foldl (scanProcess isDev) emptyScan ps))) =
   (if count_list (browserKeys ps) k > (if isDev then 20 else 8)
    then [\<lparr>browser = k, count = count_list (browserKeys ps) k,
           threat_level = (if count_list (browserKeys ps) k > (if isDev then 30 else 18)
                           then HIGH else MEDIUM)\<rparr>]
    else [])"
proof -
  have d: "distinct (map fst (foldl bumpCount [] (browserKeys ps)))"
    by (rule distinct_foldl_bumpCount) simp
  show ?thesis
    using browser_filter [OF d, of k "\<lambda>c. if c > browserThreshold isDev + 10 then HIGH else MEDIUM"
        "browserThreshold isDev"]
    by (simp add: foldl_browserEntry browserCounts_foldl_scanProcess emptyScan_def
        map_of_foldl_bumpCount browserThreshold_def)
qed

lemma browserInstances_per_browser_v2:
  "filter (\<lambda>i. browser i = k)
     (foldl browserEntry_v2 [] (browserCounts_v2 (foldl scanProcess_v2 emptyScan_v2 ps))) =
   (if count_list (browserKeys_v2 ps) k > 3
    then [\<lparr>browser = k, count = count_list (browserKeys_v2 ps) k,
           threat_level = (if count_list (browserKeys_v2 ps) k > 5 then HIGH else MEDIUM)\<rparr>]
    else [])"
proof -
  have d: "distinct (map fst (foldl bumpCount [] (browserKeys_v2 ps)))"
    by (rule distinct_foldl_bumpCount) simp
  show ?thesis
    using browser_filter [OF d, of k "\<lambda>c. if c > 5 then HIGH else MEDIUM" 3]
    by (simp add: foldl_browserEntry_v2 browserCounts_v2_foldl_scanProcess emptyScan_v2_def
        map_of_foldl_bumpCount)
qed

subsection \<open>Processes whose finding is of an uncounted category\<close>

lemma countCategory_uncounted:
  "c \<in> uncountedCategories \<Longrightarrow> countCategory c pp = pp"
  by (cases c) (simp_all add: uncountedCategories_def)

lemma processPatterns_foldl_cong:
  "processPatterns st = processPatterns st' \<Longrightarrow>
   processPatterns (foldl (scanProcess isDev) st ps) =
   processPatterns (foldl (scanProcess isDev) st' ps)"
proof (induction ps arbitrary: st st')
  case Nil
  then show ?case by simp
next
  case (Cons p ps)
  from Cons.prems have "processPatterns (scanProcess isDev st p) =
      processPatterns (scanProcess isDev st' p)"
    by (cases "findUnauthorizedApp isDev p") (simp_all add: processPatterns_scanProcess)
  then have "processPatterns (foldl (scanProcess isDev) (scanProcess isDev st p) ps) =
      processPatterns (foldl (scanProcess isDev) (scanProcess isDev st' p) ps)"
    by (rule Cons.IH)
  then show ?case by simp
qed

lemma raisesUncounted_cases:
  assumes "raisesUncounted isDev p"
  obtains app where "\<not> isServerProcess isDev p" "findUnauthorizedApp isDev p = Some app"
    "app_category app \<in> uncountedCategories"
  using assms by (cases "findUnauthorizedApp isDev p") (auto simp: raisesUncounted_def)

lemma processPatterns_raisesUncounted:
  assumes "raisesUncounted isDev p"
  shows "processPatterns (scanProcess isDev st p) = processPatterns st"
proof -
  from assms obtain app where "\<not> isServerProcess isDev p"
    "findUnauthorizedApp isDev p = Some app" "app_category app \<in> uncountedCategories"
    by (rule raisesUncounted_cases)
  then show ?thesis
    by (simp add: processPatterns_scanProcess countCategory_uncounted)
qed

lemma suspicious_raisesUncounted:
  assumes "raisesUncounted isDev p"
  shows "suspicious (scanProcess isDev st p) = suspicious st"
proof -
  from assms obtain app where "findUnauthorizedApp isDev p = Some app"
    by (rule raisesUncounted_cases)
  then show ?thesis
    by (simp add: suspicious_scanProcess)
qed

lemma unauthorized_raisesUncounted:
  assumes "raisesUncounted isDev p"
  shows "filter (\<lambda>f. u_category f \<notin> uncountedCategories)
           (unauthorized (scanProcess isDev st p)) =
         filter (\<lambda>f. u_category f \<notin> uncountedCategories) (unauthorized st)"
proof -
  from assms obtain app where "\<not> isServerProcess isDev p"
    "findUnauthorizedApp isDev p = Some app" "app_category app \<in> uncountedCategories"
    by (rule raisesUncounted_cases)
  then show ?thesis
    by (simp add: unauthorized_scanProcess)
qed

lemma unauthorized_append:
  "unauthorized (scanProcess isDev st p) =
     unauthorized st @ unauthorized (scanProcess isDev emptyScan p)"
proof -
  have e: "unauthorized emptyScan = []" by (simp add: emptyScan_def)
  show ?thesis
    by (cases "findUnauthorizedApp isDev p") (simp_all add: unauthorized_scanProcess e)
qed

lemma suspicious_append:
  "suspicious (scanProcess isDev st p) =
     suspicious st @ suspicious (scanProcess isDev emptyScan p)"
proof -
  have e: "suspicious emptyScan = []" by (simp add: emptyScan_def)
  show ?thesis
    by (cases "findSuspiciousPattern p") (simp_all add: suspicious_scanProcess e)
qed

lemma unauthorized_step_counted:
  assumes "\<not> raisesUncounted isDev p"
  shows "filter (\<lambda>f. u_category f \<notin> uncountedCategories)
           (unauthorized (scanProcess isDev emptyScan p)) =
         unauthorized (scanProcess isDev emptyScan p)"
proof -
  have e: "unauthorized emptyScan = []" by (simp add: emptyScan_def)
  show ?thesis
  proof (cases "findUnauthorizedApp isDev p")
    case None
    then show ?thesis by (simp add: unauthorized_scanProcess e)
  next
    case (Some app)
    with assms have "isServerProcess isDev p \<or> app_category app \<notin> uncountedCategories"
      by (simp add: raisesUncounted_def)
    with Some show ?thesis
      by (auto simp: unauthorized_scanProcess e)
  qed
qed

lemma findings_filter:
  assumes "filter (\<lambda>f. u_category f \<notin> uncountedCategories) (unauthorized st) = unauthorized st'"
    and "suspicious st = suspicious st'"
  shows "filter (\<lambda>f. u_category f \<notin> uncountedCategories)
           (unauthorized (foldl (scanProcess isDev) st ps)) =
         unauthorized
           (foldl (scanProcess isDev) st' (filter (\<lambda>p. \<not> raisesUncounted isDev p) ps)) \<and>
         suspicious (foldl (scanProcess isDev) st ps) =
         suspicious
           (foldl (scanProcess isDev) st' (filter (\<lambda>p. \<not> raisesUncounted isDev p) ps))"
  using assms
proof (induction ps arbitrary: st st')
  case Nil
  then show ?case by simp
next
  case (Cons p ps)
  show ?case
  proof (cases "raisesUncounted isDev p")
    case True
    have u: "filter (\<lambda>f. u_category f \<notin> uncountedCategories)
            (unauthorized (scanProcess isDev st p)) = unauthorized st'"
      using unauthorized_raisesUncounted [OF True, of st] Cons.prems(1) by simp
    have s: "suspicious (scanProcess isDev st p) = suspicious st'"
      using suspicious_raisesUncounted [OF True, of st] Cons.prems(2) by simp
    from Cons.IH [OF u s] True show ?thesis by simp
  next
    case False
    have "filter (\<lambda>f. u_category f \<notin> uncountedCategories)
            (unauthorized (scanProcess isDev st p)) =
          filter (\<lambda>f. u_category f \<notin> uncountedCategories) (unauthorized st) @
          filter (\<lambda>f. u_category f \<notin> uncountedCategories)
            (unauthorized (scanProcess isDev emptyScan p))"
      by (subst unauthorized_append) simp
    also have "\<dots> = unauthorized st' @ unauthorized (scanProcess isDev emptyScan p)"
      using Cons.prems(1) unauthorized_step_counted [OF False] by simp
    also have "\<dots> = unauthorized (scanProcess isDev st' p)"
      by (rule unauthorized_append [symmetric])
    finally have u: "filter (\<lambda>f. u_category f \<notin> uncountedCategories)
            (unauthorized (scanProcess isDev st p)) = unauthorized (scanProcess isDev st' p)" .
    have "suspicious (scanProcess isDev st p) =
          suspicious st @ suspicious (scanProcess isDev emptyScan p)"
      by (rule suspicious_append)
    also have "\<dots> = suspicious st' @ suspicious (scanProcess isDev emptyScan p)"
      using Cons.prems(2) by simp
    also have "\<dots> = suspicious (scanProcess isDev st' p)"
      by (rule suspicious_append [symmetric])
    finally have s: "suspicious (scanProcess isDev st p) = suspicious (scanProcess isDev st' p)" .
    from Cons.IH [OF u s] False show ?thesis by simp
  qed
qed

lemma processPatterns_filter:
  "processPatterns (foldl (scanProcess isDev) st (filter (\<lambda>p. \<not> raisesUncounted isDev p) ps)) =
   processPatterns (foldl (scanProcess isDev) st ps)"
proof (induction ps arbitrary: st)
  case Nil
  then show ?case by simp
next
  case (Cons p ps)
  show ?case
  proof (cases "raisesUncounted isDev p")
    case True
    have "processPatterns (foldl (scanProcess isDev) (scanProcess isDev st p) ps) =
        processPatterns (foldl (scanProcess isDev) st ps)"
      by (rule processPatterns_foldl_cong) (rule processPatterns_raisesUncounted [OF True])
    with True Cons.IH [of st] show ?thesis by simp
  next
    case False
    with Cons.IH [of "scanProcess isDev st p"] show ?thesis by simp
  qed
qed

subsection \<open>The claims about the scanner, the classifier and the aggregator\<close>

text \<open>
  Claim C5, as the code has it. In \<^verbatim>\<open>server.mjs\<close> the scanner returns, in catalog order and
  each with its category and severity, exactly the catalog domains whose name occurs,
  compared case-insensitively, in at least one non-blank line of the listing that also
  matches the dotted-quad pattern \<open>ipMatch\<close>; \<open>total\<close> is the number of non-blank lines,
  \<open>external\<close> the number of those that mention none of \<open>127.0.0.1\<close>, \<open>::1\<close> and
  \<open>localhost\<close>, and \<open>suspicious\<close> the number of domains returned; no error is recorded.
  In \<^verbatim>\<open>part_000\<close> the scanner returns the bare names of the catalog domains that occur,
  case-sensitively, in a non-blank line containing \<open>ESTABLISHED\<close>, with no category,
  severity or count.
\<close>

theorem network_scanner_result:
  "suspiciousConnections (checkNetworkConnections (Inr stdout)) =
     filter (\<lambda>d. \<exists>conn \<in> set (connectionLines stdout).
                ipMatch conn \<and> sublist (toLowerCase (dom_domain d)) (toLowerCase conn))
       suspiciousDomains \<and>
   connectionStats (checkNetworkConnections (Inr stdout)) =
     \<lparr>total = length (connectionLines stdout),
      external = length (filter (\<lambda>conn. \<not> sublist ''127.0.0.1'' conn \<and>
                    \<not> sublist ''::1'' conn \<and> \<not> sublist ''localhost'' conn)
                  (connectionLines stdout)),
      suspicious_count = length (suspiciousConnections (checkNetworkConnections (Inr stdout)))\<rparr> \<and>
   net_error (checkNetworkConnections (Inr stdout)) = None \<and>
   checkNetworkConnections_v2 (Inr stdout) =
     filter (\<lambda>d. \<exists>conn \<in> set (connectionLines_v2 stdout). sublist d conn)
       suspiciousDomains_v2"
  by (simp add: checkNetworkConnections_def checkNetworkConnections_v2_def Let_def
      foldl_scanDomain_connections foldl_scanDomain_stats foldl_scanDomain_error
      foldl_scanDomain_v2 list_ex_iff connectionNames_iff includes_str_sublist isExternal_eq)

text \<open>
  The listing \<open>github.com ESTABLISHED\<close> contains the catalog domain \<open>github.com\<close> as a
  substring, and the scanner of \<^verbatim>\<open>server.mjs\<close> returns no domain for it: the line holds no
  dotted-quad address.
\<close>

theorem network_scanner_counterexample:
  "sublist ''github.com'' ''github.com ESTABLISHED'' \<and>
   ''github.com'' \<in> dom_domain ` set suspiciousDomains \<and>
   connectionLines ''github.com ESTABLISHED'' = [''github.com ESTABLISHED''] \<and>
   suspiciousConnections (checkNetworkConnections (Inr ''github.com ESTABLISHED'')) = []"
  by code_simp

text \<open>
  Claim C7. For every process snapshot, every outcome of the connection listing and every
  behavioral and biometric input, the overall risk score of the report is 40 for each
  unauthorized finding of category \<open>cheating\<close>, 15 for each of category \<open>development\<close>,
  10 for each of category \<open>communication\<close>, 25 for each suspicious-pattern finding and 20
  for each network threat, plus the risk scores of the behavioral and of the biometric
  analyzer.
\<close>

theorem overall_risk_score:
  "\<exists>r. analyzeProcesses isDev (Inr ps) netstat = Inr r \<and>
     overallRiskScore (aiInsights (generateViolationReport r b m sid)) =
       int (40 * length (filter (\<lambda>f. u_category f = Cheating) (unauthorized r)) +
            15 * length (filter (\<lambda>f. u_category f = Development) (unauthorized r)) +
            10 * length (filter (\<lambda>f. u_category f = Communication) (unauthorized r)) +
            25 * length (suspicious r) +
            20 * length (suspiciousConnections (networkThreats r))) +
       riskScore (analyzeBehaviorMetrics b sid) +
       riskScore (analyzeBiometricData m)"
proof -
  have "countersAgree (foldl (scanProcess isDev) emptyScan ps)"
    by (rule countersAgree_foldl) (rule countersAgree_emptyScan)
  then show ?thesis
    by (simp add: analyzeProcesses_Inr overallRiskScore_generateViolationReport countersAgree_def)
qed

text \<open>
  Claim C10. Removing from a snapshot every process that raises an unauthorized finding of
  category \<open>ai_cheating\<close>, \<open>remote_access\<close>, \<open>recording\<close>, \<open>virtualization\<close>, \<open>browser\<close>,
  \<open>emulation\<close>, \<open>monitoring\<close> or \<open>system\<close> removes exactly the findings of those categories
  from the result, keeps the suspicious-pattern findings and leaves the risk score of the
  process analysis unchanged: those findings contribute nothing to it, whatever their
  severity.
\<close>

theorem uncounted_categories_contribute_nothing:
  "\<exists>r r'. analyzeProcesses isDev (Inr ps) netstat = Inr r \<and>
     analyzeProcesses isDev (Inr (filter (\<lambda>p. \<not> raisesUncounted isDev p) ps)) netstat = Inr r' \<and>
     unauthorized r' = filter (\<lambda>f. u_category f \<notin> uncountedCategories) (unauthorized r) \<and>
     suspicious r' = suspicious r \<and>
     ai_riskScore r' = ai_riskScore r"
proof -
  have "filter (\<lambda>f. u_category f \<notin> uncountedCategories) (unauthorized emptyScan) =
      unauthorized emptyScan"
    by (simp add: emptyScan_def)
  from findings_filter [OF this refl, of isDev ps] show ?thesis
    by (simp add: analyzeProcesses_Inr processPatterns_filter)
qed

text \<open>
  Claim C3. In both servers the unauthorized findings are, in order, one for each process
  of the snapshot whose name equals the name of a catalog entry case-insensitively; in
  \<^verbatim>\<open>server.mjs\<close> the processes recognised as the server's own are left out, which happens
  only in the development configuration, for a process named \<open>node\<close> or \<open>node.exe\<close>
  whose command line contains \<open>server.mjs\<close>. The report holds one
  \<open>UNAUTHORIZED_APPLICATION\<close> violation for each of these findings and no other.
\<close>

theorem unauthorized_one_per_match:
  "(\<exists>r. analyzeProcesses isDev (Inr ps) netstat = Inr r \<and>
      map (\<lambda>f. (u_name f, u_pid f)) (unauthorized r) =
        map (\<lambda>p. (name p, pid p))
          (filter (\<lambda>p. catalogMatch isDev p \<and> \<not> isServerProcess isDev p) ps) \<and>
      filter (\<lambda>v. v_type v = UNAUTHORIZED_APPLICATION)
          (violations (generateViolationReport r b m sid)) =
        map (\<lambda>f. \<lparr>v_type = UNAUTHORIZED_APPLICATION, v_severity = u_severity f\<rparr>)
          (unauthorized r)) \<and>
   (isServerProcess isDev p \<longleftrightarrow>
      isDev \<and> (toLowerCase (name p) = ''node.exe'' \<or> toLowerCase (name p) = ''node'') \<and>
      sublist ''server.mjs'' (cmd p)) \<and>
   (\<exists>r. analyzeProcesses_v2 (Inr ps) netstat = Inr r \<and>
      map (\<lambda>f. (u2_name f, u2_pid f)) (unauthorized_v2 r) =
        map (\<lambda>p. (name p, pid p)) (filter catalogMatch_v2 ps) \<and>
      filter (\<lambda>v. v_type v = UNAUTHORIZED_APPLICATION)
          (violations_v2 (generateViolationReport_v2 r)) =
        map (\<lambda>f. \<lparr>v_type = UNAUTHORIZED_APPLICATION, v_severity = u2_severity f\<rparr>)
          (unauthorized_v2 r))"
proof (intro conjI)
  have e: "unauthorized emptyScan = []" by (simp add: emptyScan_def)
  have a: "filter (\<lambda>v. v_type v = UNAUTHORIZED_APPLICATION)
        (map (\<lambda>a. \<lparr>v_type = an_type a, v_severity = an_severity a\<rparr>)
           (anomalies (analyzeBehaviorMetrics b sid))) = [] \<and>
      filter (\<lambda>v. v_type v = UNAUTHORIZED_APPLICATION)
        (map (\<lambda>a. \<lparr>v_type = an_type a, v_severity = an_severity a\<rparr>)
           (anomalies (analyzeBiometricData m))) = []"
    by (rule no_process_anomalies) simp
  show "\<exists>r. analyzeProcesses isDev (Inr ps) netstat = Inr r \<and>
      map (\<lambda>f. (u_name f, u_pid f)) (unauthorized r) =
        map (\<lambda>p. (name p, pid p))
          (filter (\<lambda>p. catalogMatch isDev p \<and> \<not> isServerProcess isDev p) ps) \<and>
      filter (\<lambda>v. v_type v = UNAUTHORIZED_APPLICATION)
          (violations (generateViolationReport r b m sid)) =
        map (\<lambda>f. \<lparr>v_type = UNAUTHORIZED_APPLICATION, v_severity = u_severity f\<rparr>)
          (unauthorized r)"
    using a
    by (simp add: analyzeProcesses_Inr names_foldl_scanProcess e
        violations_generateViolationReport filter_map comp_def)
next
  have "name p = [] \<Longrightarrow> toLowerCase (name p) \<noteq> ''node.exe'' \<and> toLowerCase (name p) \<noteq> ''node''"
    by (simp add: toLowerCase_def)
  moreover have "cmd p = [] \<Longrightarrow> \<not> sublist ''server.mjs'' (cmd p)"
    by simp
  ultimately show "isServerProcess isDev p \<longleftrightarrow>
      isDev \<and> (toLowerCase (name p) = ''node.exe'' \<or> toLowerCase (name p) = ''node'') \<and>
      sublist ''server.mjs'' (cmd p)"
    by (auto simp: isServerProcess_def includes_str_sublist)
next
  have e: "unauthorized_v2 emptyScan_v2 = []" by (simp add: emptyScan_v2_def)
  show "\<exists>r. analyzeProcesses_v2 (Inr ps) netstat = Inr r \<and>
      map (\<lambda>f. (u2_name f, u2_pid f)) (unauthorized_v2 r) =
        map (\<lambda>p. (name p, pid p)) (filter catalogMatch_v2 ps) \<and>
      filter (\<lambda>v. v_type v = UNAUTHORIZED_APPLICATION)
          (violations_v2 (generateViolationReport_v2 r)) =
        map (\<lambda>f. \<lparr>v_type = UNAUTHORIZED_APPLICATION, v_severity = u2_severity f\<rparr>)
          (unauthorized_v2 r)"
    by (simp add: analyzeProcesses_v2_Inr names_foldl_scanProcess_v2 e
        violations_generateViolationReport_v2 filter_map comp_def)
qed

text \<open>
  Claim C4, as the code has it. For every browser key \<open>k\<close>, whose instance count is the
  number of processes of the snapshot counted under \<open>k\<close>: \<^verbatim>\<open>server.mjs\<close> reports one browser
  finding for \<open>k\<close> when the count exceeds 8 (20 in the development configuration), of
  severity \<open>HIGH\<close> when it exceeds 18 (30 in development) and \<open>MEDIUM\<close> otherwise, and no
  finding for a smaller count; \<^verbatim>\<open>part_000\<close> reports one when the count exceeds 3, of
  severity \<open>HIGH\<close> when it exceeds 5 and \<open>MEDIUM\<close> otherwise. In both, the report holds one
  \<open>SUSPICIOUS_BROWSER_ACTIVITY\<close> violation of that severity for each browser finding.
\<close>

theorem browser_instance_findings:
  "(\<exists>r. analyzeProcesses isDev (Inr ps) netstat = Inr r \<and>
      filter (\<lambda>i. browser i = k) (browserInstances r) =
        (if count_list (browserKeys ps) k > (if isDev then 20 else 8)
         then [\<lparr>browser = k, count = count_list (browserKeys ps) k,
                threat_level = (if count_list (browserKeys ps) k > (if isDev then 30 else 18)
                                then HIGH else MEDIUM)\<rparr>]
         else []) \<and>
      filter (\<lambda>v. v_type v = SUSPICIOUS_BROWSER_ACTIVITY)
          (violations (generateViolationReport r b m sid)) =
        map (\<lambda>i. \<lparr>v_type = SUSPICIOUS_BROWSER_ACTIVITY, v_severity = threat_level i\<rparr>)
          (browserInstances r)) \<and>
   (\<exists>r. analyzeProcesses_v2 (Inr ps) netstat = Inr r \<and>
      filter (\<lambda>i. browser i = k) (browserInstances_v2 r) =
        (if count_list (browserKeys_v2 ps) k > 3
         then [\<lparr>browser = k, count = count_list (browserKeys_v2 ps) k,
                threat_level = (if count_list (browserKeys_v2 ps) k > 5
                                then HIGH else MEDIUM)\<rparr>]
         else []) \<and>
      filter (\<lambda>v. v_type v = SUSPICIOUS_BROWSER_ACTIVITY)
          (violations_v2 (generateViolationReport_v2 r)) =
        map (\<lambda>i. \<lparr>v_type = SUSPICIOUS_BROWSER_ACTIVITY, v_severity = threat_level i\<rparr>)
          (browserInstances_v2 r))"
proof (intro conjI)
  have a: "filter (\<lambda>v. v_type v = SUSPICIOUS_BROWSER_ACTIVITY)
        (map (\<lambda>a. \<lparr>v_type = an_type a, v_severity = an_severity a\<rparr>)
           (anomalies (analyzeBehaviorMetrics b sid))) = [] \<and>
      filter (\<lambda>v. v_type v = SUSPICIOUS_BROWSER_ACTIVITY)
        (map (\<lambda>a. \<lparr>v_type = an_type a, v_severity = an_severity a\<rparr>)
           (anomalies (analyzeBiometricData m))) = []"
    by (rule no_process_anomalies) simp
  show "\<exists>r. analyzeProcesses isDev (Inr ps) netstat = Inr r \<and>
      filter (\<lambda>i. browser i = k) (browserInstances r) =
        (if count_list (browserKeys ps) k > (if isDev then 20 else 8)
         then [\<lparr>browser = k, count = count_list (browserKeys ps) k,
                threat_level = (if count_list (browserKeys ps) k > (if isDev then 30 else 18)
                                then HIGH else MEDIUM)\<rparr>]
         else []) \<and>
      filter (\<lambda>v. v_type v = SUSPICIOUS_BROWSER_ACTIVITY)
          (violations (generateViolationReport r b m sid)) =
        map (\<lambda>i. \<lparr>v_type = SUSPICIOUS_BROWSER_ACTIVITY, v_severity = threat_level i\<rparr>)
          (browserInstances r)"
    using a browserInstances_per_browser [of k isDev ps]
    by (simp add: analyzeProcesses_Inr violations_generateViolationReport filter_map comp_def)
next
  show "\<exists>r. analyzeProcesses_v2 (Inr ps) netstat = Inr r \<and>
      filter (\<lambda>i. browser i = k) (browserInstances_v2 r) =
        (if count_list (browserKeys_v2 ps) k > 3
         then [\<lparr>browser = k, count = count_list (browserKeys_v2 ps) k,
                threat_level = (if count_list (browserKeys_v2 ps) k > 5
                                then HIGH else MEDIUM)\<rparr>]
         else []) \<and>
      filter (\<lambda>v. v_type v = SUSPICIOUS_BROWSER_ACTIVITY)
          (violations_v2 (generateViolationReport_v2 r)) =
        map (\<lambda>i. \<lparr>v_type = SUSPICIOUS_BROWSER_ACTIVITY, v_severity = threat_level i\<rparr>)
          (browserInstances_v2 r)"
    using browserInstances_per_browser_v2 [of k ps]
    by (simp add: analyzeProcesses_v2_Inr violations_generateViolationReport_v2 filter_map
        comp_def)
qed

text \<open>
  Four processes named \<open>chrome\<close> give the browser \<open>chrome\<close> an instance count of 4; in the
  production configuration \<^verbatim>\<open>server.mjs\<close> reports no browser finding for them and the report
  has no violation.
\<close>

theorem browser_threshold_counterexample:
  "count_list
     (browserKeys
        [\<lparr>pid = 1, name = ''chrome'', cmd = ''''\<rparr>, \<lparr>pid = 2, name = ''chrome'', cmd = ''''\<rparr>,
         \<lparr>pid = 3, name = ''chrome'', cmd = ''''\<rparr>, \<lparr>pid = 4, name = ''chrome'', cmd = ''''\<rparr>])
     ''chrome'' = 4 \<and>
   analyzeProcesses False
     (Inr [\<lparr>pid = 1, name = ''chrome'', cmd = ''''\<rparr>, \<lparr>pid = 2, name = ''chrome'', cmd = ''''\<rparr>,
           \<lparr>pid = 3, name = ''chrome'', cmd = ''''\<rparr>, \<lparr>pid = 4, name = ''chrome'', cmd = ''''\<rparr>])
     (Inr '''') =
   Inr \<lparr>unauthorized = [], suspicious = [], browserInstances = [],
        networkThreats =
          \<lparr>suspiciousConnections = [],
           connectionStats = \<lparr>total = 0, external = 0, suspicious_count = 0\<rparr>,
           net_error = None\<rparr>,
        processCount = 4, ai_riskScore = 0\<rparr> \<and>
   violations
     (generateViolationReport
        \<lparr>unauthorized = [], suspicious = [], browserInstances = [],
         networkThreats =
           \<lparr>suspiciousConnections = [],
            connectionStats = \<lparr>total = 0, external = 0, suspicious_count = 0\<rparr>,
            net_error = None\<rparr>,
         processCount = 4, ai_riskScore = 0\<rparr>
        JsNull JsNull None) = []"
  by code_simp

text \<open>
  Claim C1. Two reports of \<^verbatim>\<open>server.mjs\<close> whose severity is not the maximum severity of
  their violations. A process that is in no catalog and whose command line contains
  \<open>main.js\<close> gives one \<open>SUSPICIOUS_ACTIVITY\<close> violation of severity \<open>CRITICAL\<close>, and the
  report's severity is \<open>MEDIUM\<close>. Biometric data without a face, with no process at all,
  gives one \<open>FACE_NOT_DETECTED\<close> violation of severity \<open>HIGH\<close>, and the report's severity
  stays \<open>CLEAN\<close>.
\<close>

theorem report_severity_not_maximum:
  "analyzeProcesses False (Inr [\<lparr>pid = 4242, name = ''helper'', cmd = ''helper main.js''\<rparr>])
     (Inr '''') =
   Inr \<lparr>unauthorized = [],
        suspicious = [\<lparr>s_name = ''helper'', s_pid = 4242, s_cmd = ''helper main.js'',
                       s_severity = CRITICAL\<rparr>],
        browserInstances = [],
        networkThreats =
          \<lparr>suspiciousConnections = [],
           connectionStats = \<lparr>total = 0, external = 0, suspicious_count = 0\<rparr>,
           net_error = None\<rparr>,
        processCount = 1, ai_riskScore = 25\<rparr> \<and>
   report_severity
     (generateViolationReport
        \<lparr>unauthorized = [],
         suspicious = [\<lparr>s_name = ''helper'', s_pid = 4242, s_cmd = ''helper main.js'',
                        s_severity = CRITICAL\<rparr>],
         browserInstances = [],
         networkThreats =
           \<lparr>suspiciousConnections = [],
            connectionStats = \<lparr>total = 0, external = 0, suspicious_count = 0\<rparr>,
            net_error = None\<rparr>,
         processCount = 1, ai_riskScore = 25\<rparr>
        JsNull JsNull None) = MEDIUM \<and>
   violations
     (generateViolationReport
        \<lparr>unauthorized = [],
         suspicious = [\<lparr>s_name = ''helper'', s_pid = 4242, s_cmd = ''helper main.js'',
                        s_severity = CRITICAL\<rparr>],
         browserInstances = [],
         networkThreats =
           \<lparr>suspiciousConnections = [],
            connectionStats = \<lparr>total = 0, external = 0, suspicious_count = 0\<rparr>,
            net_error = None\<rparr>,
         processCount = 1, ai_riskScore = 25\<rparr>
        JsNull JsNull None) = [\<lparr>v_type = SUSPICIOUS_ACTIVITY, v_severity = CRITICAL\<rparr>] \<and>
   maxSeverity [CRITICAL] = CRITICAL \<and>
   analyzeProcesses False (Inr []) (Inr '''') =
   Inr \<lparr>unauthorized = [], suspicious = [], browserInstances = [],
        networkThreats =
          \<lparr>suspiciousConnections = [],
           connectionStats = \<lparr>total = 0, external = 0, suspicious_count = 0\<rparr>,
           net_error = None\<rparr>,
        processCount = 0, ai_riskScore = 0\<rparr> \<and>
   report_severity
     (generateViolationReport
        \<lparr>unauthorized = [], suspicious = [], browserInstances = [],
         networkThreats =
           \<lparr>suspiciousConnections = [],
            connectionStats = \<lparr>total = 0, external = 0, suspicious_count = 0\<rparr>,
            net_error = None\<rparr>,
         processCount = 0, ai_riskScore = 0\<rparr>
        JsNull (JsObject \<lparr>faceDetected = False, attentionScore = 100\<rparr>) None) = CLEAN \<and>
   violations
     (generateViolationReport
        \<lparr>unauthorized = [], suspicious = [], browserInstances = [],
         networkThreats =
           \<lparr>suspiciousConnections = [],
            connectionStats = \<lparr>total = 0, external = 0, suspicious_count = 0\<rparr>,
            net_error = None\<rparr>,
         processCount = 0, ai_riskScore = 0\<rparr>
        JsNull (JsObject \<lparr>faceDetected = False, attentionScore = 100\<rparr>) None) =
     [\<lparr>v_type = FACE_NOT_DETECTED, v_severity = HIGH\<rparr>] \<and>
   maxSeverity [HIGH] = HIGH"
  by code_simp

lemma report_without_findings:
  assumes "unauthorized r = []" "suspicious r = []" "browserInstances r = []"
    "suspiciousConnections (networkThreats r) = []"
  shows "report_severity (generateViolationReport r JsNull JsNull sid) = CLEAN"
    and "violations (generateViolationReport r JsNull JsNull sid) = []"
  using assms
  by (simp_all add: generateViolationReport_def Let_def scoreAndRecommend_def addBehavior_def
      addBiometric_def emptyReport_def)

text \<open>
  Claim C6. When the connection listing throws, the scanner returns no suspicious
  connection, zero counts and the error's message; the process analysis still returns its
  results, holding that outcome as its network threats; and when those results hold no
  unauthorized, suspicious or browser finding, the answer to \<^verbatim>\<open>GET /api/check-processes\<close> has
  status \<open>clear\<close> and a report without violations.
\<close>

theorem network_failure_degrades:
  "checkNetworkConnections (Inl message) =
     \<lparr>suspiciousConnections = [],
      connectionStats = \<lparr>total = 0, external = 0, suspicious_count = 0\<rparr>,
      net_error = Some message\<rparr> \<and>
   (\<exists>r. analyzeProcesses isDev (Inr ps) (Inl message) = Inr r \<and>
      networkThreats r = checkNetworkConnections (Inl message) \<and>
      (unauthorized r = [] \<and> suspicious r = [] \<and> browserInstances r = [] \<longrightarrow>
         checkProcesses isDev (Inr ps) (Inl message) sessionId =
           \<lparr>httpStatus = 200, status = ''clear'', response_severity = Some CLEAN,
            response_report =
              Some (generateViolationReport r JsNull JsNull (Some sessionId))\<rparr> \<and>
         violations (generateViolationReport r JsNull JsNull (Some sessionId)) = []))"
proof -
  have net: "checkNetworkConnections (Inl message) =
     \<lparr>suspiciousConnections = [],
      connectionStats = \<lparr>total = 0, external = 0, suspicious_count = 0\<rparr>,
      net_error = Some message\<rparr>"
    by (simp add: checkNetworkConnections_def)
  obtain r where r: "analyzeProcesses isDev (Inr ps) (Inl message) = Inr r"
    and n: "networkThreats r = checkNetworkConnections (Inl message)"
    by (simp add: analyzeProcesses_Inr)
  have "checkProcesses isDev (Inr ps) (Inl message) sessionId =
           \<lparr>httpStatus = 200, status = ''clear'', response_severity = Some CLEAN,
            response_report =
              Some (generateViolationReport r JsNull JsNull (Some sessionId))\<rparr> \<and>
         violations (generateViolationReport r JsNull JsNull (Some sessionId)) = []"
    if "unauthorized r = []" "suspicious r = []" "browserInstances r = []"
  proof -
    from n net have "suspiciousConnections (networkThreats r) = []" by simp
    with that have "report_severity (generateViolationReport r JsNull JsNull (Some sessionId)) = CLEAN"
      and "violations (generateViolationReport r JsNull JsNull (Some sessionId)) = []"
      by (rule report_without_findings)+
    with r show ?thesis
      by (simp add: checkProcesses_def Let_def)
  qed
  with net r n show ?thesis by blast
qed

text \<open>A snapshot of one process that is in no catalog, with a failing \<open>netstat\<close>.\<close>

theorem network_failure_degrades_witness:
  "analyzeProcesses False
     (Inr [\<lparr>pid = 812, name = ''explorer.exe'', cmd = ''C:/Windows/explorer.exe''\<rparr>])
     (Inl ''netstat: command not found'') =
   Inr \<lparr>unauthorized = [], suspicious = [], browserInstances = [],
        networkThreats =
          \<lparr>suspiciousConnections = [],
           connectionStats = \<lparr>total = 0, external = 0, suspicious_count = 0\<rparr>,
           net_error = Some ''netstat: command not found''\<rparr>,
        processCount = 1, ai_riskScore = 0\<rparr> \<and>
   status (checkProcesses False
     (Inr [\<lparr>pid = 812, name = ''explorer.exe'', cmd = ''C:/Windows/explorer.exe''\<rparr>])
     (Inl ''netstat: command not found'') ''session-1'') = ''clear''"
proof -
  let ?ps = "[\<lparr>pid = 812, name = ''explorer.exe'', cmd = ''C:/Windows/explorer.exe''\<rparr>]"
  let ?msg = "''netstat: command not found''"
  have run: "analyzeProcesses False (Inr ?ps) (Inl ?msg) =
     Inr \<lparr>unauthorized = [], suspicious = [], browserInstances = [],
        networkThreats =
          \<lparr>suspiciousConnections = [],
           connectionStats = \<lparr>total = 0, external = 0, suspicious_count = 0\<rparr>,
           net_error = Some ?msg\<rparr>,
        processCount = 1, ai_riskScore = 0\<rparr>"
    by code_simp
  from network_failure_degrades [of ?msg False ?ps "''session-1''"]
  obtain r where r: "analyzeProcesses False (Inr ?ps) (Inl ?msg) = Inr r"
    and imp: "unauthorized r = [] \<and> suspicious r = [] \<and> browserInstances r = [] \<longrightarrow>
         checkProcesses False (Inr ?ps) (Inl ?msg) ''session-1'' =
           \<lparr>httpStatus = 200, status = ''clear'', response_severity = Some CLEAN,
            response_report =
              Some (generateViolationReport r JsNull JsNull (Some ''session-1''))\<rparr> \<and>
         violations (generateViolationReport r JsNull JsNull (Some ''session-1'')) = []"
    by blast
  from r run have "unauthorized r = [] \<and> suspicious r = [] \<and> browserInstances r = []"
    by auto
  with imp have "status (checkProcesses False (Inr ?ps) (Inl ?msg) ''session-1'') = ''clear''"
    by simp
  with run show ?thesis by simp
qed

end
